theory Spec2Isabelle
  imports Main "HOL-Library.Product_Lexorder"
begin

section \<open>Shared vocabulary of the two adapters\<close>

text \<open>
  Both adapter classes carry the same static table \<open>ScanState\<close> of six string constants
  (\<open>adapter.js\<close> exports it a third time). A scan's state is stored as that string, and
  \<open>updateScanState\<close> accepts any string, so states are strings here too.
\<close>

definition ScanState_ABORTED :: string where "ScanState_ABORTED = ''ABORTED''"
definition ScanState_FAILED :: string where "ScanState_FAILED = ''FAILED''"
definition ScanState_FINISHED :: string where "ScanState_FINISHED = ''FINISHED''"
definition ScanState_PENDING :: string where "ScanState_PENDING = ''PENDING''"
definition ScanState_STARTING :: string where "ScanState_STARTING = ''STARTING''"
definition ScanState_RUNNING :: string where "ScanState_RUNNING = ''RUNNING''"

definition ALGORITHM_VERSION :: int where "ALGORITHM_VERSION = 4"

text \<open>
  What a call can throw. \<open>Error msg\<close> is JavaScript's \<open>new Error(msg)\<close>; \<open>TypeError\<close> is
  what reading \<open>record.get\<close> of an \<open>undefined\<close> record raises; \<open>DatabaseError code\<close> is the
  error the relational engine reports for a failed statement, with its SQLSTATE code.
\<close>

datatype error = Error string | TypeError | DatabaseError string

definition foreign_key_violation :: string where "foreign_key_violation = ''23503''"

text \<open>
  Timestamps (\<open>Date.now()\<close>, \<open>NOW()\<close>) are milliseconds since the epoch. A call that reads
  the clock takes the reading as an argument.
\<close>

type_synonym timestamp = nat

text \<open>
  A JSON value that is stored serialised (response headers, the remaining fields of a test)
  is represented by its list of fields; serialisation itself is not modelled.
\<close>

type_synonym json = "(string \<times> string) list"

text \<open>JavaScript truthiness of a \<open>string | null\<close>: \<open>null\<close> and the empty string are falsy.\<close>

fun truthy :: "string option \<Rightarrow> bool" where
  "truthy None = False"
| "truthy (Some s) = (s \<noteq> [])"

text \<open>JavaScript truthiness of a \<open>number | null\<close>: \<open>null\<close> and \<open>0\<close> are falsy.\<close>

fun truthy_num :: "nat option \<Rightarrow> bool" where
  "truthy_num None = False"
| "truthy_num (Some n) = (n \<noteq> 0)"

subsection \<open>The scan result handed over by the scanner\<close>

text \<open>
  A field of a JavaScript object that the code tests against \<open>null\<close>: it may be missing
  (\<open>undefined\<close>), be \<open>null\<close>, or hold a value. \<open>x !== null\<close> is true of a missing field as
  of a value. A missing value is stored as null.
\<close>

datatype 'a js = Undefined | Null | Value 'a

fun stored :: "'a js \<Rightarrow> 'a option" where
  "stored Undefined = None"
| "stored Null = None"
| "stored (Value v) = Some v"

text \<open>
  \<open>scanResult.scan\<close> and the entries of \<open>scanResult.tests\<close>, with the fields the adapters read.
  \<open>Object.entries\<close> lists the tests in insertion order, so the tests are an association list.
  Numbers are integers. The score is the one field the adapters test (\<open>scan.score !== null\<close>);
  for the other nullable fields \<open>None\<close> stands for \<open>null\<close> and for a missing field, which are
  stored alike.
\<close>

record scan_summary =
  testsFailed :: int
  testsPassed :: int
  grade :: "string option"
  score :: "int js"
  responseHeaders :: "json option"
  statusCode :: "int option"
  algorithmVersion :: int
  testsQuantity :: int
  error :: "string option"

record test_outcome =
  expectation :: string
  pass :: bool
  result :: string
  scoreModifier :: int
  scoreDescription :: string
  rest :: json

record ScanResult =
  scan :: scan_summary
  tests :: "(string \<times> test_outcome) list"

section \<open>The adapter factory\<close>

text \<open>
  \<open>createDatabaseAdapter(config)\<close> of \<open>adapter.js\<close>. Only \<open>config.database.type\<close> is read, and
  it is read unguarded: the argument may be \<open>undefined\<close> (\<open>None\<close>) and a configuration may lack
  its \<open>database\<close> section, and then the read throws a \<open>TypeError\<close>; within the section the
  \<open>type\<close> may be missing. The adapter modules are taken to load.
\<close>

record database_section =
  database_type :: "string option"

record config =
  database :: "database_section option"

datatype DatabaseAdapter = Neo4jAdapter config | PostgreSQLAdapter config

definition createDatabaseAdapter :: "config option \<Rightarrow> error + DatabaseAdapter" where
  "createDatabaseAdapter config =
     (case config of
        None \<Rightarrow> Inl TypeError
      | Some cfg \<Rightarrow>
          (case database cfg of
             None \<Rightarrow> Inl TypeError
           | Some section \<Rightarrow>
               if database_type section = Some ''neo4j'' then Inr (Neo4jAdapter cfg)
               else Inr (PostgreSQLAdapter cfg)))"

section \<open>The relational adapter (class PostgreSQLAdapter)\<close>

subsection \<open>Tables\<close>

text \<open>
  The rows of the three tables the adapter reads and writes, one field per column the
  adapter names; \<open>NULL\<close> is \<open>None\<close>. The \<open>SERIAL\<close> keys are drawn from a sequence per
  table, kept in the database state.
\<close>

record sites_row =
  si_id :: int
  si_domain :: string
  si_creation_time :: timestamp

record scans_row =
  sc_id :: int
  sc_site_id :: int
  sc_state :: string
  sc_start_time :: timestamp
  sc_end_time :: "timestamp option"
  sc_tests_failed :: int
  sc_tests_passed :: int
  sc_tests_quantity :: int
  sc_grade :: "string option"
  sc_score :: "int option"
  sc_error :: "string option"
  sc_algorithm_version :: int
  sc_response_headers :: "json option"
  sc_status_code :: "int option"

record tests_row =
  te_id :: int
  te_site_id :: int
  te_scan_id :: int
  te_name :: string
  te_expectation :: string
  te_result :: string
  te_pass :: bool
  te_output :: json
  te_score_modifier :: int

record pg_db =
  pg_sites :: "sites_row list"
  pg_scans :: "scans_row list"
  pg_tests :: "tests_row list"
  pg_sites_id_seq :: int
  pg_scans_id_seq :: int
  pg_tests_id_seq :: int

text \<open>
  Modelled from the spec: the declaration of table \<open>scans\<close> is in the migration scripts,
  which are not part of the adapter. \<open>insertScan\<close> names only \<open>site_id\<close>, \<open>state\<close>,
  \<open>start_time\<close>, \<open>tests_quantity\<close> and \<open>algorithm_version\<close>; the spec has the new scan
  carry zero counts, so \<open>tests_failed\<close> and \<open>tests_passed\<close> default to 0, and the nullable
  columns default to \<open>NULL\<close>.
\<close>

definition scans_default_tests_failed :: int where "scans_default_tests_failed = 0"
definition scans_default_tests_passed :: int where "scans_default_tests_passed = 0"

text \<open>
  Modelled from the spec: the foreign keys of the schema, as the repository's schema
  comparison documents them (\<open>scans.site_id\<close>, \<open>tests.site_id\<close> reference \<open>sites(id)\<close>;
  \<open>tests.scan_id\<close> references \<open>scans(id)\<close>). An insert whose reference has no parent
  row is rejected by the engine with SQLSTATE 23503, and the rejection propagates to the
  caller as a thrown error; nothing is stored.
\<close>

definition site_exists :: "pg_db \<Rightarrow> int \<Rightarrow> bool" where
  "site_exists db siteId = (siteId \<in> set (map si_id (pg_sites db)))"

definition scan_exists :: "pg_db \<Rightarrow> int \<Rightarrow> bool" where
  "scan_exists db scanId = (scanId \<in> set (map sc_id (pg_scans db)))"

text \<open>
  Modelled from the spec: the column types of table \<open>scans\<close>. The repository's schema
  description gives \<open>score\<close> as \<open>SMALLINT\<close>: a statement that binds a score outside
  \<open>-32768 .. 32767\<close> is rejected with SQLSTATE 22003. It does not give the rest of the
  declaration (the types of the counts, of the status code and of the algorithm version,
  lengths, \<open>NOT NULL\<close> and check constraints), so that part is a parameter of the model:
  \<open>declared s\<close> is the SQLSTATE with which the engine rejects the values \<open>s\<close> bound to the
  terminal \<open>UPDATE\<close>, or \<open>None\<close> when it accepts them.
\<close>

definition smallint :: "int \<Rightarrow> bool" where
  "smallint n \<longleftrightarrow> - 32768 \<le> n \<and> n \<le> 32767"

definition numeric_value_out_of_range :: string where "numeric_value_out_of_range = ''22003''"

type_synonym scans_declaration = "scan_summary \<Rightarrow> string option"

definition update_rejected :: "scans_declaration \<Rightarrow> scan_summary \<Rightarrow> string option" where
  "update_rejected declared s =
     (case score s of
        Value n \<Rightarrow> if smallint n then declared s else Some numeric_value_out_of_range
      | _ \<Rightarrow> declared s)"

subsection \<open>SQL building blocks\<close>

text \<open>\<open>UPDATE t SET ... WHERE p\<close>: every row that satisfies \<open>p\<close> is rewritten by \<open>f\<close>.\<close>

definition update_where :: "('a \<Rightarrow> bool) \<Rightarrow> ('a \<Rightarrow> 'a) \<Rightarrow> 'a list \<Rightarrow> 'a list" where
  "update_where p f rows = map (\<lambda>r. if p r then f r else r) rows"

text \<open>\<open>RETURNING *\<close> read through \<open>result.rows[0]\<close>: the first rewritten row, or \<open>undefined\<close>.\<close>

definition returning_first :: "('a \<Rightarrow> bool) \<Rightarrow> ('a \<Rightarrow> 'a) \<Rightarrow> 'a list \<Rightarrow> 'a option" where
  "returning_first p f rows = (case filter p rows of [] \<Rightarrow> None | r # _ \<Rightarrow> Some (f r))"

text \<open>Ascending \<open>ORDER BY\<close> on a nullable column puts \<open>NULL\<close> last.\<close>

fun nulls_last :: "nat option \<Rightarrow> nat \<times> nat" where
  "nulls_last None = (1, 0)"
| "nulls_last (Some t) = (0, t)"

text \<open>\<open>a IS DISTINCT FROM b\<close>: inequality that treats \<open>NULL\<close> as an ordinary value.\<close>

definition is_distinct_from :: "'a option \<Rightarrow> 'a option \<Rightarrow> bool" where
  "is_distinct_from a b = (a \<noteq> b)"

text \<open>\<open>LAG(x) OVER (...)\<close>: each row paired with the value of the row before it, \<open>NULL\<close> for the first.\<close>

definition with_lag :: "('a \<Rightarrow> 'b option) \<Rightarrow> 'a list \<Rightarrow> ('a \<times> 'b option) list" where
  "with_lag x rows = zip rows (None # map x rows)"

subsection \<open>Operations\<close>

text \<open>
  \<open>insertScan(pool, siteId)\<close>: one \<open>INSERT ... RETURNING *\<close>; the row comes back as stored.
\<close>

definition PostgreSQLAdapter_insertScan ::
  "pg_db \<Rightarrow> timestamp \<Rightarrow> int \<Rightarrow> error + (pg_db \<times> scans_row)" where
  "PostgreSQLAdapter_insertScan db now siteId =
     (if \<not> site_exists db siteId then Inl (DatabaseError foreign_key_violation)
      else
        let row = \<lparr>sc_id = pg_scans_id_seq db + 1,
                   sc_site_id = siteId,
                   sc_state = ScanState_RUNNING,
                   sc_start_time = now,
                   sc_end_time = None,
                   sc_tests_failed = scans_default_tests_failed,
                   sc_tests_passed = scans_default_tests_passed,
                   sc_tests_quantity = 0,
                   sc_grade = None,
                   sc_score = None,
                   sc_error = None,
                   sc_algorithm_version = ALGORITHM_VERSION,
                   sc_response_headers = None,
                   sc_status_code = None\<rparr>
        in Inr (db\<lparr>pg_scans := pg_scans db @ [row],
                    pg_scans_id_seq := pg_scans_id_seq db + 1\<rparr>, row))"

text \<open>
  \<open>insertTestResults\<close>, first statement: the rows of \<open>testValues\<close>, one per entry of
  \<open>scanResult.tests\<close>, inserted by a single multi-row \<open>INSERT INTO tests\<close>. The statement
  is skipped when there is no entry.
\<close>

definition testValues_row :: "int \<Rightarrow> int \<Rightarrow> int \<Rightarrow> string \<times> test_outcome \<Rightarrow> tests_row" where
  "testValues_row siteId scanId i e =
     \<lparr>te_id = i,
      te_site_id = siteId,
      te_scan_id = scanId,
      te_name = fst e,
      te_expectation = expectation (snd e),
      te_result = result (snd e),
      te_pass = pass (snd e),
      te_output = rest (snd e),
      te_score_modifier = scoreModifier (snd e)\<rparr>"

definition insert_tests ::
  "pg_db \<Rightarrow> int \<Rightarrow> int \<Rightarrow> (string \<times> test_outcome) list \<Rightarrow> error + pg_db" where
  "insert_tests db siteId scanId entries =
     (if entries = [] then Inr db
      else if \<not> site_exists db siteId \<or> \<not> scan_exists db scanId
        then Inl (DatabaseError foreign_key_violation)
      else Inr (db\<lparr>pg_tests := pg_tests db @
                     map (\<lambda>(k, e). testValues_row siteId scanId (pg_tests_id_seq db + 1 + int k) e)
                       (enumerate 0 entries),
                   pg_tests_id_seq := pg_tests_id_seq db + int (length entries)\<rparr>))"

text \<open>
  \<open>insertTestResults\<close>, second statement: the \<open>UPDATE scans SET (...) = (NOW(), ...)
  WHERE id = scanId RETURNING *\<close>. The state bound is FINISHED unless the score is \<open>null\<close>,
  so also for a missing score, which is stored as \<open>NULL\<close>. A statement the engine rejects
  changes nothing and its error is thrown to the caller.
\<close>

definition terminal_row :: "timestamp \<Rightarrow> scan_summary \<Rightarrow> scans_row \<Rightarrow> scans_row" where
  "terminal_row now s r =
     r\<lparr>sc_end_time := Some now,
       sc_tests_failed := testsFailed s,
       sc_tests_passed := testsPassed s,
       sc_grade := grade s,
       sc_score := stored (score s),
       sc_state := (if score s \<noteq> Null then ScanState_FINISHED else ScanState_FAILED),
       sc_response_headers := responseHeaders s,
       sc_status_code := statusCode s,
       sc_algorithm_version := algorithmVersion s,
       sc_tests_quantity := testsQuantity s,
       sc_error := error s\<rparr>"

definition update_scan_terminal ::
  "scans_declaration \<Rightarrow> pg_db \<Rightarrow> timestamp \<Rightarrow> int \<Rightarrow> scan_summary
     \<Rightarrow> error + (pg_db \<times> scans_row option)" where
  "update_scan_terminal declared db now scanId s =
     (case update_rejected declared s of
        Some sqlstate \<Rightarrow> Inl (DatabaseError sqlstate)
      | None \<Rightarrow>
          Inr (db\<lparr>pg_scans := update_where (\<lambda>r. sc_id r = scanId) (terminal_row now s)
                                   (pg_scans db)\<rparr>,
               returning_first (\<lambda>r. sc_id r = scanId) (terminal_row now s) (pg_scans db)))"

text \<open>
  \<open>insertTestResults\<close>: the two statements are separate \<open>pool.query\<close> calls, so when
  the \<open>UPDATE\<close> is rejected the tests inserted before it stay in the store; the store a
  failed call leaves behind is the last one of the trace below.
\<close>

definition PostgreSQLAdapter_insertTestResults ::
  "scans_declaration \<Rightarrow> pg_db \<Rightarrow> timestamp \<Rightarrow> int \<Rightarrow> int \<Rightarrow> ScanResult
     \<Rightarrow> error + (pg_db \<times> scans_row option)" where
  "PostgreSQLAdapter_insertTestResults declared db now siteId scanId scanResult =
     (case insert_tests db siteId scanId (tests scanResult) of
        Inl e \<Rightarrow> Inl e
      | Inr db1 \<Rightarrow> update_scan_terminal declared db1 now scanId (scan scanResult))"

text \<open>
  The database states an execution of \<open>insertTestResults\<close> passes through, one per
  completed statement, the state before the call first: a crash leaves the store in one
  of them. A rejected statement ends the execution in the store it found.
\<close>

definition PostgreSQLAdapter_insertTestResults_trace ::
  "scans_declaration \<Rightarrow> pg_db \<Rightarrow> timestamp \<Rightarrow> int \<Rightarrow> int \<Rightarrow> ScanResult \<Rightarrow> pg_db list" where
  "PostgreSQLAdapter_insertTestResults_trace declared db now siteId scanId scanResult =
     (case insert_tests db siteId scanId (tests scanResult) of
        Inl e \<Rightarrow> [db]
      | Inr db1 \<Rightarrow>
          (if tests scanResult = [] then [db] else [db, db1])
          @ (case update_scan_terminal declared db1 now scanId (scan scanResult) of
               Inl e \<Rightarrow> []
             | Inr (db2, ret) \<Rightarrow> [db2]))"

text \<open>
  \<open>ensureSite(pool, siteKey)\<close>: the newest site of that domain (\<open>ORDER BY creation_time
  DESC LIMIT 1\<close>), or a new row.
\<close>

definition PostgreSQLAdapter_ensureSite :: "pg_db \<Rightarrow> timestamp \<Rightarrow> string \<Rightarrow> pg_db \<times> int" where
  "PostgreSQLAdapter_ensureSite db now siteKey =
     (case sort_key (\<lambda>s. - int (si_creation_time s))
             (filter (\<lambda>s. si_domain s = siteKey) (pg_sites db)) of
        s # _ \<Rightarrow> (db, si_id s)
      | [] \<Rightarrow>
          (db\<lparr>pg_sites := pg_sites db @
                 [\<lparr>si_id = pg_sites_id_seq db + 1, si_domain = siteKey, si_creation_time = now\<rparr>],
              pg_sites_id_seq := pg_sites_id_seq db + 1\<rparr>,
           pg_sites_id_seq db + 1))"

text \<open>
  \<open>selectScanHostHistory(pool, siteId)\<close>. Inside the subquery the window's
  \<open>ORDER BY end_time\<close> is the column \<open>scans.end_time\<close> (a window clause cannot see the
  output alias); the outer \<open>ORDER BY end_time\<close> is the alias, that is \<open>start_time\<close>.
  Rows that tie in a sort keep their stored order. \<open>round(extract(epoch from ...))\<close> is
  the time in whole seconds, the half second rounded up.
\<close>

record 'i history_entry =
  h_id :: 'i
  h_grade :: "string option"
  h_score :: "int option"
  h_end_time :: timestamp
  h_end_time_unix_timestamp :: nat

definition pg_history_entry :: "scans_row \<Rightarrow> int history_entry" where
  "pg_history_entry r =
     \<lparr>h_id = sc_id r,
      h_grade = sc_grade r,
      h_score = sc_score r,
      h_end_time = sc_start_time r,
      h_end_time_unix_timestamp = (sc_start_time r + 500) div 1000\<rparr>"

definition PostgreSQLAdapter_selectScanHostHistory :: "pg_db \<Rightarrow> int \<Rightarrow> int history_entry list" where
  "PostgreSQLAdapter_selectScanHostHistory db siteId =
     (let rows = filter (\<lambda>r. sc_site_id r = siteId \<and> sc_state r = ScanState_FINISHED) (pg_scans db);
          sq = with_lag sc_score (sort_key (\<lambda>r. nulls_last (sc_end_time r)) rows);
          kept = filter (\<lambda>(r, prev_score). is_distinct_from (sc_score r) prev_score) sq
      in sort_key h_end_time (map (\<lambda>(r, prev_score). pg_history_entry r) kept))"

text \<open>\<open>selectScan(pool, scanId)\<close>: \<open>rows[0]\<close> of \<open>SELECT * FROM scans WHERE id = $1\<close>.\<close>

definition PostgreSQLAdapter_selectScan :: "pg_db \<Rightarrow> int \<Rightarrow> scans_row option" where
  "PostgreSQLAdapter_selectScan db scanId = find (\<lambda>r. sc_id r = scanId) (pg_scans db)"

text \<open>\<open>selectTestResults(pool, scanId)\<close>.\<close>

definition PostgreSQLAdapter_selectTestResults :: "pg_db \<Rightarrow> int \<Rightarrow> tests_row list" where
  "PostgreSQLAdapter_selectTestResults db scanId = filter (\<lambda>t. te_scan_id t = scanId) (pg_tests db)"

text \<open>
  \<open>updateScanState(pool, scanId, state, error = null)\<close>: with a truthy \<open>error\<close> the state,
  the end time and the error are written, otherwise the state alone.
\<close>

definition PostgreSQLAdapter_updateScanState ::
  "pg_db \<Rightarrow> timestamp \<Rightarrow> int \<Rightarrow> string \<Rightarrow> string option \<Rightarrow> pg_db \<times> scans_row option" where
  "PostgreSQLAdapter_updateScanState db now scanId state err =
     (if truthy err then
        (db\<lparr>pg_scans := update_where (\<lambda>r. sc_id r = scanId)
               (\<lambda>r. r\<lparr>sc_state := state, sc_end_time := Some now, sc_error := err\<rparr>) (pg_scans db)\<rparr>,
         returning_first (\<lambda>r. sc_id r = scanId)
               (\<lambda>r. r\<lparr>sc_state := state, sc_end_time := Some now, sc_error := err\<rparr>) (pg_scans db))
      else
        (db\<lparr>pg_scans := update_where (\<lambda>r. sc_id r = scanId)
               (\<lambda>r. r\<lparr>sc_state := state\<rparr>) (pg_scans db)\<rparr>,
         returning_first (\<lambda>r. sc_id r = scanId)
               (\<lambda>r. r\<lparr>sc_state := state\<rparr>) (pg_scans db)))"

section \<open>The graph adapter (class Neo4jAdapter)\<close>

subsection \<open>Nodes and relationships\<close>

text \<open>
  The property graph: three kinds of node, each a pair of the engine's internal node
  number and the node's properties, and the two kinds of relationship as pairs of node
  numbers (start, end). A property that is absent reads as \<open>null\<close> and setting a property
  to \<open>null\<close> removes it, so a nullable property is an \<open>option\<close>.
  \<open>responseHeaders\<close> holds the text \<open>JSON.stringify\<close> returns, which is a string for
  \<open>null\<close> too (the text \<open>null\<close>): once set, the property is present whatever was given.
\<close>

record Site_props =
  ns_id :: string
  ns_domain :: string
  ns_creationTime :: timestamp

record Scan_props =
  n_id :: string
  n_siteId :: string
  n_state :: string
  n_startTime :: timestamp
  n_endTime :: "timestamp option"
  n_testsFailed :: int
  n_testsPassed :: int
  n_testsQuantity :: int
  n_grade :: "string option"
  n_score :: "int option"
  n_responseHeaders :: "json option option"
  n_statusCode :: "int option"
  n_error :: "string option"
  n_algorithmVersion :: int

record TestResult_props =
  nt_id :: string
  nt_scanId :: string
  nt_name :: string
  nt_expectation :: string
  nt_result :: string
  nt_pass :: bool
  nt_scoreModifier :: int
  nt_output :: json

record graph =
  Site_nodes :: "(nat \<times> Site_props) list"
  Scan_nodes :: "(nat \<times> Scan_props) list"
  TestResult_nodes :: "(nat \<times> TestResult_props) list"
  HAS_SCAN :: "(nat \<times> nat) list"
  HAS_TEST :: "(nat \<times> nat) list"
  next_node :: nat

text \<open>
  The record every scan-returning method of the graph adapter builds (\<open>_mapScanRow\<close>, and
  the same literal written out in \<open>insertTestResults\<close> and \<open>selectScan\<close>).
  \<open>new Date(ms)\<close> is represented by \<open>ms\<close>.
\<close>

record scan_record =
  r_id :: string
  r_site_id :: string
  r_state :: string
  r_start_time :: timestamp
  r_end_time :: "timestamp option"
  r_tests_failed :: int
  r_tests_passed :: int
  r_tests_quantity :: int
  r_grade :: "string option"
  r_score :: "int option"
  r_error :: "string option"
  r_algorithm_version :: int

definition mapScanRow :: "Scan_props \<Rightarrow> scan_record" where
  "mapScanRow s =
     \<lparr>r_id = n_id s,
      r_site_id = n_siteId s,
      r_state = n_state s,
      r_start_time = n_startTime s,
      r_end_time = (if truthy_num (n_endTime s) then n_endTime s else None),
      r_tests_failed = n_testsFailed s,
      r_tests_passed = n_testsPassed s,
      r_tests_quantity = n_testsQuantity s,
      r_grade = n_grade s,
      r_score = n_score s,
      r_error = n_error s,
      r_algorithm_version = n_algorithmVersion s\<rparr>"

subsection \<open>Cypher building blocks\<close>

text \<open>\<open>MATCH (scan:Scan {id: $scanId})\<close>: the Scan nodes with that \<open>id\<close> property.\<close>

definition match_Scan :: "graph \<Rightarrow> string \<Rightarrow> (nat \<times> Scan_props) list" where
  "match_Scan g scanId = filter (\<lambda>n. n_id (snd n) = scanId) (Scan_nodes g)"

text \<open>\<open>MATCH (s:Site {id: $siteId})\<close>.\<close>

definition match_Site :: "graph \<Rightarrow> string \<Rightarrow> (nat \<times> Site_props) list" where
  "match_Site g siteId = filter (\<lambda>n. ns_id (snd n) = siteId) (Site_nodes g)"

text \<open>
  \<open>MATCH (s:Site {id: $siteId})-[:HAS_SCAN]->(scan:Scan)\<close>: one row per path, the scan
  of each.
\<close>

definition match_Site_HAS_SCAN :: "graph \<Rightarrow> string \<Rightarrow> Scan_props list" where
  "match_Site_HAS_SCAN g siteId =
     concat (map (\<lambda>s.
       concat (map (\<lambda>rel.
         map snd (filter (\<lambda>n. fst n = snd rel) (Scan_nodes g)))
         (filter (\<lambda>rel. fst rel = fst s) (HAS_SCAN g))))
       (match_Site g siteId))"

text \<open>\<open>MATCH (scan:Scan {id: $scanId})-[:HAS_TEST]->(test:TestResult)\<close>.\<close>

definition match_Scan_HAS_TEST :: "graph \<Rightarrow> string \<Rightarrow> TestResult_props list" where
  "match_Scan_HAS_TEST g scanId =
     concat (map (\<lambda>s.
       concat (map (\<lambda>rel.
         map snd (filter (\<lambda>n. fst n = snd rel) (TestResult_nodes g)))
         (filter (\<lambda>rel. fst rel = fst s) (HAS_TEST g))))
       (match_Scan g scanId))"

text \<open>\<open>SET\<close> on the matched Scan nodes.\<close>

definition set_Scan :: "graph \<Rightarrow> string \<Rightarrow> (Scan_props \<Rightarrow> Scan_props) \<Rightarrow> graph" where
  "set_Scan g scanId f =
     g\<lparr>Scan_nodes := map (\<lambda>n. if n_id (snd n) = scanId then (fst n, f (snd n)) else n)
                         (Scan_nodes g)\<rparr>"

text \<open>Cypher's \<open>range(a, b)\<close>: the integers from \<open>a\<close> to \<open>b\<close>, both included; empty when \<open>b < a\<close>.\<close>

definition range :: "int \<Rightarrow> int \<Rightarrow> int list" where
  "range a b = map (\<lambda>k. a + int k) [0 ..< nat (b - a + 1)]"

subsection \<open>Operations\<close>

text \<open>
  \<open>insertScan(driver, siteId)\<close>. The \<open>CREATE\<close> clauses run once per matched Site; each new
  node takes the next node number, and \<open>randomUuid()\<close> is a function of that number, given
  by the caller of the model. \<open>result.records[0]\<close> is the first scan created; with no
  matched Site nothing is created and the method throws.
\<close>

definition new_Scan :: "string \<Rightarrow> string \<Rightarrow> timestamp \<Rightarrow> Scan_props" where
  "new_Scan uuid siteId startTime =
     \<lparr>n_id = uuid,
      n_siteId = siteId,
      n_state = ScanState_RUNNING,
      n_startTime = startTime,
      n_endTime = None,
      n_testsFailed = 0,
      n_testsPassed = 0,
      n_testsQuantity = 0,
      n_grade = None,
      n_score = None,
      n_responseHeaders = None,
      n_statusCode = None,
      n_error = None,
      n_algorithmVersion = ALGORITHM_VERSION\<rparr>"

definition create_Scan :: "(nat \<Rightarrow> string) \<Rightarrow> string \<Rightarrow> timestamp \<Rightarrow> graph \<Rightarrow> nat \<Rightarrow> graph" where
  "create_Scan randomUuid siteId startTime g site_node =
     g\<lparr>Scan_nodes := Scan_nodes g @
          [(next_node g, new_Scan (randomUuid (next_node g)) siteId startTime)],
       HAS_SCAN := HAS_SCAN g @ [(site_node, next_node g)],
       next_node := Suc (next_node g)\<rparr>"

definition Neo4jAdapter_insertScan ::
  "(nat \<Rightarrow> string) \<Rightarrow> graph \<Rightarrow> timestamp \<Rightarrow> string \<Rightarrow> error + (graph \<times> scan_record)" where
  "Neo4jAdapter_insertScan randomUuid g now siteId =
     (let g' = foldl (create_Scan randomUuid siteId now) g (map fst (match_Site g siteId))
      in case drop (length (Scan_nodes g)) (Scan_nodes g') of
           [] \<Rightarrow> Inl (Error (''Site not found: '' @ siteId))
         | record # _ \<Rightarrow>
             Inr (g',
               \<lparr>r_id = n_id (snd record),
                r_site_id = n_siteId (snd record),
                r_state = n_state (snd record),
                r_start_time = n_startTime (snd record),
                r_end_time = None,
                r_tests_failed = n_testsFailed (snd record),
                r_tests_passed = n_testsPassed (snd record),
                r_tests_quantity = n_testsQuantity (snd record),
                r_grade = None,
                r_score = None,
                r_error = None,
                r_algorithm_version = n_algorithmVersion (snd record)\<rparr>))"

text \<open>
  \<open>insertTestResults\<close>, the loop: one \<open>session.run\<close> per entry of \<open>scanResult.tests\<close>, each
  creating a TestResult node and its \<open>HAS_TEST\<close> relationship for every matched Scan.
\<close>

definition new_TestResult :: "string \<Rightarrow> string \<Rightarrow> string \<times> test_outcome \<Rightarrow> TestResult_props" where
  "new_TestResult uuid scanId e =
     \<lparr>nt_id = uuid,
      nt_scanId = scanId,
      nt_name = fst e,
      nt_expectation = expectation (snd e),
      nt_result = result (snd e),
      nt_pass = pass (snd e),
      nt_scoreModifier = scoreModifier (snd e),
      nt_output = rest (snd e)\<rparr>"

definition create_TestResult ::
  "(nat \<Rightarrow> string) \<Rightarrow> string \<Rightarrow> string \<times> test_outcome \<Rightarrow> graph \<Rightarrow> nat \<Rightarrow> graph" where
  "create_TestResult randomUuid scanId e g scan_node =
     g\<lparr>TestResult_nodes := TestResult_nodes g @
          [(next_node g, new_TestResult (randomUuid (next_node g)) scanId e)],
       HAS_TEST := HAS_TEST g @ [(scan_node, next_node g)],
       next_node := Suc (next_node g)\<rparr>"

definition run_testQuery ::
  "(nat \<Rightarrow> string) \<Rightarrow> string \<Rightarrow> graph \<Rightarrow> string \<times> test_outcome \<Rightarrow> graph" where
  "run_testQuery randomUuid scanId g e =
     foldl (create_TestResult randomUuid scanId e) g (map fst (match_Scan g scanId))"

definition run_testQueries ::
  "(nat \<Rightarrow> string) \<Rightarrow> string \<Rightarrow> graph \<Rightarrow> (string \<times> test_outcome) list \<Rightarrow> graph" where
  "run_testQueries randomUuid scanId g entries = foldl (run_testQuery randomUuid scanId) g entries"

text \<open>
  \<open>insertTestResults\<close>, the final \<open>SET\<close> on the scan. The state is FINISHED unless the score
  is \<open>null\<close>, so also for a missing score, which leaves the scan without a score property.
\<close>

definition terminal_props :: "timestamp \<Rightarrow> scan_summary \<Rightarrow> Scan_props \<Rightarrow> Scan_props" where
  "terminal_props timestamp s p =
     p\<lparr>n_endTime := Some timestamp,
       n_testsFailed := testsFailed s,
       n_testsPassed := testsPassed s,
       n_grade := grade s,
       n_score := stored (score s),
       n_state := (if score s \<noteq> Null then ScanState_FINISHED else ScanState_FAILED),
       n_responseHeaders := Some (responseHeaders s),
       n_statusCode := statusCode s,
       n_testsQuantity := testsQuantity s,
       n_error := error s\<rparr>"

definition Neo4jAdapter_insertTestResults ::
  "(nat \<Rightarrow> string) \<Rightarrow> graph \<Rightarrow> timestamp \<Rightarrow> string \<Rightarrow> string \<Rightarrow> ScanResult
     \<Rightarrow> error + (graph \<times> scan_record)" where
  "Neo4jAdapter_insertTestResults randomUuid g now siteId scanId scanResult =
     (let g1 = run_testQueries randomUuid scanId g (tests scanResult);
          g2 = set_Scan g1 scanId (terminal_props now (scan scanResult))
      in case match_Scan g2 scanId of
           [] \<Rightarrow> Inl TypeError
         | record # _ \<Rightarrow> Inr (g2, mapScanRow (snd record)))"

text \<open>
  The graph states an execution of \<open>insertTestResults\<close> passes through, one per completed
  \<open>session.run\<close>, the state before the call first: a crash leaves the store in one of them.
\<close>

definition Neo4jAdapter_insertTestResults_trace ::
  "(nat \<Rightarrow> string) \<Rightarrow> graph \<Rightarrow> timestamp \<Rightarrow> string \<Rightarrow> string \<Rightarrow> ScanResult \<Rightarrow> graph list" where
  "Neo4jAdapter_insertTestResults_trace randomUuid g now siteId scanId scanResult =
     map (\<lambda>k. run_testQueries randomUuid scanId g (take k (tests scanResult)))
       [0 ..< Suc (length (tests scanResult))]
     @ [set_Scan (run_testQueries randomUuid scanId g (tests scanResult)) scanId
          (terminal_props now (scan scanResult))]"

text \<open>
  \<open>ensureSite(driver, siteKey)\<close>. A new site's id is the key with every character
  outside \<open>[a-zA-Z0-9]\<close> replaced by an underscore, an underscore, and the clock reading in
  decimal; the clock is read a second time for \<open>creationTime\<close>. Keys are ASCII text.
\<close>

definition alphanumeric :: "char \<Rightarrow> bool" where
  "alphanumeric c =
     (let n = (of_char c :: nat)
      in (48 \<le> n \<and> n \<le> 57) \<or> (65 \<le> n \<and> n \<le> 90) \<or> (97 \<le> n \<and> n \<le> 122))"

function string_of_nat :: "nat \<Rightarrow> string" where
  "string_of_nat n =
     (if n < 10 then [char_of (48 + n)]
      else string_of_nat (n div 10) @ [char_of (48 + n mod 10)])"
  by pat_completeness auto
termination
  by (relation "measure id") auto

definition new_siteId :: "string \<Rightarrow> timestamp \<Rightarrow> string" where
  "new_siteId siteKey now =
     map (\<lambda>c. if alphanumeric c then c else CHR ''_'') siteKey @ ''_'' @ string_of_nat now"

definition Neo4jAdapter_ensureSite ::
  "graph \<Rightarrow> timestamp \<Rightarrow> timestamp \<Rightarrow> string \<Rightarrow> graph \<times> string" where
  "Neo4jAdapter_ensureSite g now now' siteKey =
     (case sort_key (\<lambda>s. - int (ns_creationTime s))
             (map snd (filter (\<lambda>n. ns_domain (snd n) = siteKey) (Site_nodes g))) of
        s # _ \<Rightarrow> (g, ns_id s)
      | [] \<Rightarrow>
          (g\<lparr>Site_nodes := Site_nodes g @
                [(next_node g,
                  \<lparr>ns_id = new_siteId siteKey now, ns_domain = siteKey, ns_creationTime = now'\<rparr>)],
             next_node := Suc (next_node g)\<rparr>,
           new_siteId siteKey now))"

text \<open>
  \<open>selectScanHostHistory(driver, siteId)\<close>. \<open>IS DISTINCT FROM\<close> is read as in SQL. The
  scans are collected in \<open>startTime\<close> order; the row of index \<open>idx\<close> pairs \<open>scans[idx]\<close> with
  \<open>scans[idx+1]\<close>, and the entry returned is built from the second of the pair (\<open>curr\<close>
  of the query, \<open>current\<close> here).
\<close>

definition neo_history_entry :: "Scan_props \<Rightarrow> string history_entry" where
  "neo_history_entry current =
     \<lparr>h_id = n_id current,
      h_grade = n_grade current,
      h_score = n_score current,
      h_end_time = n_startTime current,
      h_end_time_unix_timestamp = n_startTime current div 1000\<rparr>"

definition Neo4jAdapter_selectScanHostHistory :: "graph \<Rightarrow> string \<Rightarrow> string history_entry list" where
  "Neo4jAdapter_selectScanHostHistory g siteId =
     (let scans = sort_key n_startTime
                    (filter (\<lambda>scan. n_state scan = ScanState_FINISHED \<and> n_score scan \<noteq> None)
                       (match_Site_HAS_SCAN g siteId));
          rows = map (\<lambda>idx. (scans ! nat idx, scans ! nat (idx + 1)))
                   (range 0 (int (length scans) - 2));
          kept = filter (\<lambda>(previous, current).
                          is_distinct_from (n_score previous) (n_score current)) rows
      in sort_key h_end_time (map (\<lambda>(previous, current). neo_history_entry current) kept))"

text \<open>\<open>selectScan(driver, scanId)\<close>.\<close>

definition Neo4jAdapter_selectScan :: "graph \<Rightarrow> string \<Rightarrow> scan_record option" where
  "Neo4jAdapter_selectScan g scanId =
     (case match_Scan g scanId of
        [] \<Rightarrow> None
      | record # _ \<Rightarrow> Some (mapScanRow (snd record)))"

text \<open>\<open>selectTestResults(driver, scanId)\<close>: the properties of the tests of the scan.\<close>

definition Neo4jAdapter_selectTestResults :: "graph \<Rightarrow> string \<Rightarrow> TestResult_props list" where
  "Neo4jAdapter_selectTestResults g scanId = match_Scan_HAS_TEST g scanId"

text \<open>
  \<open>updateScanState(driver, scanId, state, error = null)\<close>: \<open>SET scan += $props\<close>, where
  \<open>props\<close> always has \<open>state\<close> and \<open>endTime\<close> (the clock reading when \<open>error\<close> is truthy,
  \<open>null\<close> otherwise) and has \<open>error\<close> only when it is truthy. Reading the first record of an
  empty result throws.
\<close>

definition updateProps :: "timestamp \<Rightarrow> string \<Rightarrow> string option \<Rightarrow> Scan_props \<Rightarrow> Scan_props" where
  "updateProps now state err p =
     (let p' = p\<lparr>n_state := state, n_endTime := (if truthy err then Some now else None)\<rparr>
      in if truthy err then p'\<lparr>n_error := err\<rparr> else p')"

definition Neo4jAdapter_updateScanState ::
  "graph \<Rightarrow> timestamp \<Rightarrow> string \<Rightarrow> string \<Rightarrow> string option \<Rightarrow> error + (graph \<times> scan_record)" where
  "Neo4jAdapter_updateScanState g now scanId state err =
     (let g' = set_Scan g scanId (updateProps now state err)
      in case match_Scan g' scanId of
           [] \<Rightarrow> Inl TypeError
         | record # _ \<Rightarrow> Inr (g', mapScanRow (snd record)))"

section \<open>Example stores\<close>

text \<open>
  Concrete stores and scan results used to instantiate the theorems below: one site
  \<open>example.com\<close> and the scans given, on either backend.
\<close>

definition example_site :: sites_row where
  "example_site = \<lparr>si_id = 1, si_domain = ''example.com'', si_creation_time = 1000\<rparr>"

definition running_row :: "int \<Rightarrow> timestamp \<Rightarrow> scans_row" where
  "running_row i t =
     \<lparr>sc_id = i, sc_site_id = 1, sc_state = ScanState_RUNNING, sc_start_time = t,
      sc_end_time = None, sc_tests_failed = 0, sc_tests_passed = 0, sc_tests_quantity = 0,
      sc_grade = None, sc_score = None, sc_error = None, sc_algorithm_version = 4,
      sc_response_headers = None, sc_status_code = None\<rparr>"

definition finished_row :: "int \<Rightarrow> timestamp \<Rightarrow> int \<Rightarrow> scans_row" where
  "finished_row i t s =
     (running_row i t)\<lparr>sc_state := ScanState_FINISHED, sc_end_time := Some (t + 500),
       sc_tests_passed := 10, sc_tests_quantity := 10, sc_grade := Some ''A'',
       sc_score := Some s, sc_status_code := Some 200\<rparr>"

definition pg_store :: "scans_row list \<Rightarrow> pg_db" where
  "pg_store rows =
     \<lparr>pg_sites = [example_site], pg_scans = rows, pg_tests = [],
      pg_sites_id_seq = 1, pg_scans_id_seq = int (length rows), pg_tests_id_seq = 0\<rparr>"

definition example_Site :: Site_props where
  "example_Site = \<lparr>ns_id = ''example_com_1000'', ns_domain = ''example.com'', ns_creationTime = 1000\<rparr>"

definition running_node :: "string \<Rightarrow> timestamp \<Rightarrow> Scan_props" where
  "running_node i t =
     \<lparr>n_id = i, n_siteId = ''example_com_1000'', n_state = ScanState_RUNNING, n_startTime = t,
      n_endTime = None, n_testsFailed = 0, n_testsPassed = 0, n_testsQuantity = 0,
      n_grade = None, n_score = None, n_responseHeaders = None, n_statusCode = None,
      n_error = None, n_algorithmVersion = 4\<rparr>"

definition finished_node :: "string \<Rightarrow> timestamp \<Rightarrow> int \<Rightarrow> Scan_props" where
  "finished_node i t s =
     (running_node i t)\<lparr>n_state := ScanState_FINISHED, n_endTime := Some (t + 500),
       n_testsPassed := 10, n_testsQuantity := 10, n_grade := Some ''A'',
       n_score := Some s, n_responseHeaders := Some None, n_statusCode := Some 200\<rparr>"

definition graph_store :: "Scan_props list \<Rightarrow> graph" where
  "graph_store ps =
     \<lparr>Site_nodes = [(0, example_Site)],
      Scan_nodes = zip [1 ..< Suc (length ps)] ps,
      TestResult_nodes = [],
      HAS_SCAN = map (\<lambda>k. (0, k)) [1 ..< Suc (length ps)],
      HAS_TEST = [],
      next_node = Suc (length ps)\<rparr>"

definition example_uuid :: "nat \<Rightarrow> string" where
  "example_uuid n = ''uuid-'' @ string_of_nat n"

definition summary :: "int js \<Rightarrow> string option \<Rightarrow> string option \<Rightarrow> scan_summary" where
  "summary s g e =
     \<lparr>testsFailed = 0, testsPassed = 2, grade = g, score = s,
      responseHeaders = Some [(''server'', ''nginx'')], statusCode = Some 200,
      algorithmVersion = 4, testsQuantity = 2, error = e\<rparr>"

text \<open>
  An instance of the undeclared part of the \<open>scans\<close> declaration: the three counts, the
  status code and the algorithm version are \<open>SMALLINT\<close> as well.
\<close>

definition example_declaration :: scans_declaration where
  "example_declaration s =
     (if smallint (testsFailed s) \<and> smallint (testsPassed s) \<and> smallint (testsQuantity s)
         \<and> smallint (algorithmVersion s)
         \<and> (case statusCode s of None \<Rightarrow> True | Some c \<Rightarrow> smallint c)
      then None else Some numeric_value_out_of_range)"

definition example_tests :: "(string \<times> test_outcome) list" where
  "example_tests =
     [(''csp'', \<lparr>expectation = ''csp-implemented'', pass = True, result = ''csp-implemented'',
                 scoreModifier = 5, scoreDescription = ''ok'', rest = [(''policy'', ''default-src'')]\<rparr>),
      (''hsts'', \<lparr>expectation = ''hsts-implemented'', pass = True, result = ''hsts-implemented'',
                  scoreModifier = 0, scoreDescription = ''ok'', rest = []\<rparr>)]"

section \<open>Properties named by the specification\<close>

text \<open>
  The invariant the specification's data model states for a scan, read on a row of the
  relational store and on a node of the graph store: end time stamp, grade and score are
  null together or set together; a FINISHED scan has a score; a FAILED scan has an error.
\<close>

definition spec_invariant_row :: "scans_row \<Rightarrow> bool" where
  "spec_invariant_row r \<longleftrightarrow>
     ((sc_end_time r = None \<and> sc_grade r = None \<and> sc_score r = None)
        \<or> (sc_end_time r \<noteq> None \<and> sc_grade r \<noteq> None \<and> sc_score r \<noteq> None))
     \<and> (sc_state r = ScanState_FINISHED \<longrightarrow> sc_score r \<noteq> None)
     \<and> (sc_state r = ScanState_FAILED \<longrightarrow> sc_error r \<noteq> None)"

definition spec_invariant_node :: "Scan_props \<Rightarrow> bool" where
  "spec_invariant_node p \<longleftrightarrow>
     ((n_endTime p = None \<and> n_grade p = None \<and> n_score p = None)
        \<or> (n_endTime p \<noteq> None \<and> n_grade p \<noteq> None \<and> n_score p \<noteq> None))
     \<and> (n_state p = ScanState_FINISHED \<longrightarrow> n_score p \<noteq> None)
     \<and> (n_state p = ScanState_FAILED \<longrightarrow> n_error p \<noteq> None)"

text \<open>The second conjunct alone: a FINISHED scan has a score.\<close>

definition finished_has_score_row :: "scans_row \<Rightarrow> bool" where
  "finished_has_score_row r \<longleftrightarrow> (sc_state r = ScanState_FINISHED \<longrightarrow> sc_score r \<noteq> None)"

definition finished_has_score_node :: "Scan_props \<Rightarrow> bool" where
  "finished_has_score_node p \<longleftrightarrow> (n_state p = ScanState_FINISHED \<longrightarrow> n_score p \<noteq> None)"

text \<open>
  "All TestResults of the result are written", as \<open>selectTestResults\<close> shows it: every
  entry of \<open>scanResult.tests\<close> has its record among the tests of the scan (the record's own
  identifier apart).
\<close>

definition pg_tests_written :: "pg_db \<Rightarrow> int \<Rightarrow> int \<Rightarrow> (string \<times> test_outcome) list \<Rightarrow> bool" where
  "pg_tests_written db siteId scanId entries =
     list_all (\<lambda>e. list_ex (\<lambda>t. t\<lparr>te_id := 0\<rparr> = testValues_row siteId scanId 0 e)
                      (PostgreSQLAdapter_selectTestResults db scanId))
       entries"

definition neo_tests_written :: "graph \<Rightarrow> string \<Rightarrow> (string \<times> test_outcome) list \<Rightarrow> bool" where
  "neo_tests_written g scanId entries =
     list_all (\<lambda>e. list_ex (\<lambda>t. t\<lparr>nt_id := []\<rparr> = new_TestResult [] scanId e)
                      (Neo4jAdapter_selectTestResults g scanId))
       entries"

text \<open>
  One graph extends another when it has the same Scan nodes and at least the other's
  TestResult nodes and \<open>HAS_TEST\<close> relationships.
\<close>

definition graph_extends :: "graph \<Rightarrow> graph \<Rightarrow> bool" where
  "graph_extends g g' \<longleftrightarrow>
     Scan_nodes g' = Scan_nodes g
     \<and> set (TestResult_nodes g) \<subseteq> set (TestResult_nodes g')
     \<and> set (HAS_TEST g) \<subseteq> set (HAS_TEST g')"

text \<open>
  The history compression as the specification words it: of a chronological list, the
  earliest element is kept, and after it every element whose score differs from the score
  of the element just before it (the first of each run of equal scores).
\<close>

fun score_changes :: "('a \<Rightarrow> 'b option) \<Rightarrow> 'b option \<Rightarrow> 'a list \<Rightarrow> 'a list" where
  "score_changes f previous [] = []"
| "score_changes f previous (x # xs) =
     (if f x \<noteq> previous then x # score_changes f (f x) xs else score_changes f (f x) xs)"

fun first_of_each_run :: "('a \<Rightarrow> 'b option) \<Rightarrow> 'a list \<Rightarrow> 'a list" where
  "first_of_each_run f [] = []"
| "first_of_each_run f (x # xs) = x # score_changes f (f x) xs"

section \<open>Basic facts\<close>

lemmas ScanState_defs =
  ScanState_ABORTED_def ScanState_FAILED_def ScanState_FINISHED_def
  ScanState_PENDING_def ScanState_STARTING_def ScanState_RUNNING_def

declare string_of_nat.simps [simp del]

lemma not_isl_Inr_pair: "\<not> isl x \<Longrightarrow> \<exists>a b. x = Inr (a, b)"
  by (cases x) auto

subsection \<open>Relational building blocks\<close>

lemma find_update_where_same:
  assumes "\<And>r. key (f r) = key r"
  shows "find (\<lambda>r. key r = i) (update_where (\<lambda>r. key r = i) f rows)
           = map_option f (find (\<lambda>r. key r = i) rows)"
  using assms by (induction rows) (simp_all add: update_where_def)

lemma find_update_where_other:
  assumes "i \<noteq> j" and "\<And>r. key (f r) = key r"
  shows "find (\<lambda>r. key r = i) (update_where (\<lambda>r. key r = j) f rows)
           = find (\<lambda>r. key r = i) rows"
  using assms by (induction rows) (simp_all add: update_where_def)

lemma sc_id_terminal_row [simp]: "sc_id (terminal_row now s r) = sc_id r"
  by (simp add: terminal_row_def)

lemma insert_tests_scans:
  "insert_tests db siteId scanId entries = Inr db1 \<Longrightarrow> pg_scans db1 = pg_scans db"
  by (auto simp: insert_tests_def split: if_splits)

lemma insert_tests_sites:
  "insert_tests db siteId scanId entries = Inr db1 \<Longrightarrow> pg_sites db1 = pg_sites db"
  by (auto simp: insert_tests_def split: if_splits)

lemma insert_tests_succeeds:
  "entries = [] \<or> (site_exists db siteId \<and> scan_exists db scanId)
     \<Longrightarrow> \<exists>db1. insert_tests db siteId scanId entries = Inr db1"
  by (auto simp: insert_tests_def)

lemma scan_exists_find:
  "scan_exists db scanId \<longleftrightarrow> (\<exists>row. find (\<lambda>r. sc_id r = scanId) (pg_scans db) = Some row)"
proof -
  have "(\<exists>row. find P xs = Some row) \<longleftrightarrow> (\<exists>x \<in> set xs. P x)" for P and xs :: "scans_row list"
    using find_None_iff [of P xs] by (cases "find P xs") auto
  then show ?thesis
    by (auto simp: scan_exists_def)
qed

lemma update_scan_terminal_Inr:
  "update_scan_terminal declared db now scanId s = Inr (db', ret) \<longleftrightarrow>
     update_rejected declared s = None
     \<and> db' = db\<lparr>pg_scans := update_where (\<lambda>r. sc_id r = scanId) (terminal_row now s) (pg_scans db)\<rparr>
     \<and> ret = returning_first (\<lambda>r. sc_id r = scanId) (terminal_row now s) (pg_scans db)"
  by (auto simp: update_scan_terminal_def split: option.splits)

lemma update_scan_terminal_accepted:
  "update_rejected declared s = None \<Longrightarrow>
     update_scan_terminal declared db now scanId s
       = Inr (db\<lparr>pg_scans := update_where (\<lambda>r. sc_id r = scanId) (terminal_row now s) (pg_scans db)\<rparr>,
              returning_first (\<lambda>r. sc_id r = scanId) (terminal_row now s) (pg_scans db))"
  by (simp add: update_scan_terminal_def)

lemma PostgreSQLAdapter_insertTestResults_Inr:
  assumes "PostgreSQLAdapter_insertTestResults declared db now siteId scanId r = Inr (db', ret)"
  shows "\<exists>db1. insert_tests db siteId scanId (tests r) = Inr db1
           \<and> update_rejected declared (scan r) = None
           \<and> db' = db1\<lparr>pg_scans := update_where (\<lambda>r. sc_id r = scanId)
                                      (terminal_row now (scan r)) (pg_scans db)\<rparr>"
proof -
  from assms obtain db1 where db1: "insert_tests db siteId scanId (tests r) = Inr db1"
    and upd: "update_scan_terminal declared db1 now scanId (scan r) = Inr (db', ret)"
    by (auto simp: PostgreSQLAdapter_insertTestResults_def split: sum.splits)
  have "pg_scans db1 = pg_scans db"
    using db1 by (rule insert_tests_scans)
  then show ?thesis
    using db1 upd by (simp add: update_scan_terminal_Inr)
qed

subsection \<open>Graph building blocks\<close>

lemma Scan_nodes_create_TestResults [simp]:
  "Scan_nodes (foldl (create_TestResult gen scanId e) g ns) = Scan_nodes g"
  by (induction ns arbitrary: g) (simp_all add: create_TestResult_def)

lemma Scan_nodes_run_testQuery [simp]:
  "Scan_nodes (run_testQuery gen scanId g e) = Scan_nodes g"
  by (simp add: run_testQuery_def)

lemma Scan_nodes_run_testQueries [simp]:
  "Scan_nodes (run_testQueries gen scanId g es) = Scan_nodes g"
  unfolding run_testQueries_def by (induction es arbitrary: g) simp_all

lemma match_Scan_run_testQueries [simp]:
  "match_Scan (run_testQueries gen scanId g es) i = match_Scan g i"
  by (simp add: match_Scan_def)

lemma match_Scan_set_Scan_same:
  assumes "\<And>p. n_id (f p) = n_id p"
  shows "match_Scan (set_Scan g i f) i = map (\<lambda>n. (fst n, f (snd n))) (match_Scan g i)"
  unfolding match_Scan_def set_Scan_def using assms
  by (induction "Scan_nodes g" arbitrary: g) (auto simp: filter_map o_def intro!: filter_cong map_cong)

lemma match_Scan_set_Scan_other:
  assumes "i \<noteq> j" and "\<And>p. n_id (f p) = n_id p"
  shows "match_Scan (set_Scan g j f) i = match_Scan g i"
proof -
  have "filter (\<lambda>n. n_id (snd n) = i) (map (\<lambda>n. if n_id (snd n) = j then (fst n, f (snd n)) else n) xs)
          = filter (\<lambda>n. n_id (snd n) = i) xs" for xs
    using assms by (induction xs) auto
  then show ?thesis by (simp add: match_Scan_def set_Scan_def)
qed

lemma n_id_terminal_props [simp]: "n_id (terminal_props now s p) = n_id p"
  by (simp add: terminal_props_def)

lemma n_id_updateProps [simp]: "n_id (updateProps now st err p) = n_id p"
  by (simp add: updateProps_def Let_def)

section \<open>Claims about the factory\<close>

text \<open>
  C2 (as stated): a configuration whose backend discriminator names neither recognised
  backend makes \<open>createDatabaseAdapter\<close> fail. It does not: the value \<open>mongodb\<close> is answered
  with a PostgreSQL adapter.
\<close>

theorem createDatabaseAdapter_unknown_counterexample:
  "createDatabaseAdapter (Some \<lparr>database = Some \<lparr>database_type = Some ''mongodb''\<rparr>\<rparr>)
     = Inr (PostgreSQLAdapter \<lparr>database = Some \<lparr>database_type = Some ''mongodb''\<rparr>\<rparr>)
   \<and> \<not> isl (createDatabaseAdapter (Some \<lparr>database = Some \<lparr>database_type = Some ''mongodb''\<rparr>\<rparr>))"
  by (simp add: createDatabaseAdapter_def)

text \<open>
  C2 (amended): for every configuration that has a database section whose discriminator
  is not \<open>neo4j\<close> (an unrecognised name or a missing one), the factory returns the default,
  a PostgreSQL adapter built from that configuration; for the discriminator \<open>neo4j\<close> it
  returns a Neo4j adapter. When the factory fails, the failure is the \<open>TypeError\<close> of reading
  the discriminator of a configuration that is missing or has no database section.
\<close>

theorem createDatabaseAdapter_defaults_to_PostgreSQL:
  "(database cfg = Some db_section \<and> database_type db_section \<noteq> Some ''neo4j''
      \<longrightarrow> createDatabaseAdapter (Some cfg) = Inr (PostgreSQLAdapter cfg))
   \<and> (database cfg = Some db_section \<and> database_type db_section = Some ''neo4j''
      \<longrightarrow> createDatabaseAdapter (Some cfg) = Inr (Neo4jAdapter cfg))
   \<and> (createDatabaseAdapter config = Inl e
      \<longrightarrow> e = TypeError \<and> (config = None \<or> (\<exists>c. config = Some c \<and> database c = None)))"
  by (auto simp: createDatabaseAdapter_def split: option.splits if_splits)

theorem createDatabaseAdapter_defaults_to_PostgreSQL_witness:
  "database \<lparr>database = Some \<lparr>database_type = Some ''graph''\<rparr>\<rparr>
     = Some \<lparr>database_type = Some ''graph''\<rparr>
   \<and> database_type \<lparr>database_type = Some ''graph''\<rparr> \<noteq> Some ''neo4j''
   \<and> createDatabaseAdapter (Some \<lparr>database = Some \<lparr>database_type = Some ''graph''\<rparr>\<rparr>)
       = Inr (PostgreSQLAdapter \<lparr>database = Some \<lparr>database_type = Some ''graph''\<rparr>\<rparr>)
   \<and> database \<lparr>database = Some \<lparr>database_type = Some ''neo4j''\<rparr>\<rparr>
     = Some \<lparr>database_type = Some ''neo4j''\<rparr>
   \<and> createDatabaseAdapter (Some \<lparr>database = Some \<lparr>database_type = Some ''neo4j''\<rparr>\<rparr>)
       = Inr (Neo4jAdapter \<lparr>database = Some \<lparr>database_type = Some ''neo4j''\<rparr>\<rparr>)
   \<and> createDatabaseAdapter (Some \<lparr>database = None\<rparr>) = Inl TypeError
   \<and> createDatabaseAdapter None = Inl TypeError"
proof -
  have a: "createDatabaseAdapter (Some \<lparr>database = None\<rparr>) = Inl TypeError"
    using createDatabaseAdapter_defaults_to_PostgreSQL
      [where config = "Some \<lparr>database = None\<rparr>" and e = "projl (createDatabaseAdapter (Some \<lparr>database = None\<rparr>))"]
    by (simp add: createDatabaseAdapter_def)
  have b: "createDatabaseAdapter None = Inl TypeError"
    by (simp add: createDatabaseAdapter_def)
  show ?thesis
    using a b
      createDatabaseAdapter_defaults_to_PostgreSQL
        [where cfg = "\<lparr>database = Some \<lparr>database_type = Some ''graph''\<rparr>\<rparr>"
           and db_section = "\<lparr>database_type = Some ''graph''\<rparr>"]
      createDatabaseAdapter_defaults_to_PostgreSQL
        [where cfg = "\<lparr>database = Some \<lparr>database_type = Some ''neo4j''\<rparr>\<rparr>"
           and db_section = "\<lparr>database_type = Some ''neo4j''\<rparr>"]
    by simp
qed

section \<open>Claims about the terminal transition\<close>

lemma PostgreSQLAdapter_insertTestResults_selectScan:
  assumes ex: "PostgreSQLAdapter_selectScan db scanId = Some row0"
      and fk: "tests r = [] \<or> site_exists db siteId"
      and ok: "update_rejected declared (scan r) = None"
  shows "\<exists>db' ret. PostgreSQLAdapter_insertTestResults declared db now siteId scanId r = Inr (db', ret)
           \<and> PostgreSQLAdapter_selectScan db' scanId = Some (terminal_row now (scan r) row0)"
proof -
  from ex have "scan_exists db scanId"
    by (simp add: scan_exists_find PostgreSQLAdapter_selectScan_def)
  with fk obtain db1 where db1: "insert_tests db siteId scanId (tests r) = Inr db1"
    using insert_tests_succeeds [of "tests r" db siteId scanId] by blast
  have scans: "pg_scans db1 = pg_scans db"
    using db1 by (rule insert_tests_scans)
  let ?db' = "db1\<lparr>pg_scans := update_where (\<lambda>r. sc_id r = scanId) (terminal_row now (scan r))
                                   (pg_scans db1)\<rparr>"
  have "PostgreSQLAdapter_selectScan ?db' scanId = Some (terminal_row now (scan r) row0)"
    using ex
    by (simp add: PostgreSQLAdapter_selectScan_def scans find_update_where_same [where key = sc_id])
  then show ?thesis
    using db1 ok
    by (simp add: PostgreSQLAdapter_insertTestResults_def update_scan_terminal_accepted)
qed

lemma Neo4jAdapter_selectScan_Some:
  "Neo4jAdapter_selectScan g scanId = Some row \<longleftrightarrow>
     (\<exists>n ns. match_Scan g scanId = n # ns \<and> row = mapScanRow (snd n))"
  by (auto simp: Neo4jAdapter_selectScan_def split: list.splits)

lemma Neo4jAdapter_insertTestResults_selectScan:
  assumes ex: "match_Scan g scanId = n # ns"
  shows "\<exists>g' ret. Neo4jAdapter_insertTestResults randomUuid g now siteId scanId r = Inr (g', ret)
           \<and> Neo4jAdapter_selectScan g' scanId
               = Some (mapScanRow (terminal_props now (scan r) (snd n)))
           \<and> ret = mapScanRow (terminal_props now (scan r) (snd n))"
  using ex
  by (simp add: Neo4jAdapter_insertTestResults_def Neo4jAdapter_selectScan_def Let_def
      match_Scan_set_Scan_same)

text \<open>
  C3 (as stated): after \<open>insertTestResults\<close> with a null score \<open>selectScan\<close> reports state
  FAILED and a non-null error, and with a numeric score state FINISHED and a non-null grade
  and score. A result with null score and null error leaves a FAILED scan whose error is
  null, and a result with score 50 and null grade leaves a FINISHED scan whose grade is
  null, on both backends. On the relational backend a result with score 40000 is rejected
  by the engine (the column is \<open>SMALLINT\<close>): the call throws after the tests are inserted
  and the scan is RUNNING in every store of the execution.
\<close>

theorem insertTestResults_null_error_counterexample:
  "(case PostgreSQLAdapter_insertTestResults example_declaration (pg_store [running_row 1 1000]) 2000 1 1
           \<lparr>scan = summary Null None None, tests = example_tests\<rparr> of
      Inl e \<Rightarrow> False
    | Inr (db', ret) \<Rightarrow>
        map_option (\<lambda>row. (sc_state row, sc_error row)) (PostgreSQLAdapter_selectScan db' 1)
          = Some (ScanState_FAILED, None))
   \<and> (case Neo4jAdapter_insertTestResults example_uuid (graph_store [running_node ''a'' 1000]) 2000
             ''example_com_1000'' ''a'' \<lparr>scan = summary Null None None, tests = example_tests\<rparr> of
        Inl e \<Rightarrow> False
      | Inr (g', ret) \<Rightarrow>
          map_option (\<lambda>row. (r_state row, r_error row)) (Neo4jAdapter_selectScan g' ''a'')
            = Some (ScanState_FAILED, None))
   \<and> (case PostgreSQLAdapter_insertTestResults example_declaration (pg_store [running_row 1 1000]) 2000 1 1
           \<lparr>scan = summary (Value 50) None None, tests = example_tests\<rparr> of
      Inl e \<Rightarrow> False
    | Inr (db', ret) \<Rightarrow>
        map_option (\<lambda>row. (sc_state row, sc_score row, sc_grade row)) (PostgreSQLAdapter_selectScan db' 1)
          = Some (ScanState_FINISHED, Some 50, None))
   \<and> (case Neo4jAdapter_insertTestResults example_uuid (graph_store [running_node ''a'' 1000]) 2000
             ''example_com_1000'' ''a'' \<lparr>scan = summary (Value 50) None None, tests = example_tests\<rparr> of
        Inl e \<Rightarrow> False
      | Inr (g', ret) \<Rightarrow>
          map_option (\<lambda>row. (r_state row, r_score row, r_grade row)) (Neo4jAdapter_selectScan g' ''a'')
            = Some (ScanState_FINISHED, Some 50, None))
   \<and> PostgreSQLAdapter_insertTestResults example_declaration (pg_store [running_row 1 1000]) 2000 1 1
         \<lparr>scan = summary (Value 40000) (Some ''A+'') None, tests = example_tests\<rparr>
       = Inl (DatabaseError numeric_value_out_of_range)
   \<and> map (\<lambda>s. map_option sc_state (PostgreSQLAdapter_selectScan s 1))
        (PostgreSQLAdapter_insertTestResults_trace example_declaration (pg_store [running_row 1 1000])
           2000 1 1 \<lparr>scan = summary (Value 40000) (Some ''A+'') None, tests = example_tests\<rparr>)
       = [Some ScanState_RUNNING, Some ScanState_RUNNING]"
  by code_simp

text \<open>
  C3 (amended): for every completed scan result whose score is null or a number, passed to
  \<open>insertTestResults\<close> for an existing scan: on the graph backend, and on the relational
  backend whenever the engine accepts the statements (the tests' foreign keys have their
  parents, the score fits \<open>SMALLINT\<close> and the rest of the table declaration accepts the
  values), the call succeeds and a subsequent \<open>selectScan\<close> reports state FAILED if
  \<open>result.score\<close> is null and FINISHED if it is a number; the score, the grade and the error
  it reports are the ones of the result, so the score of a FINISHED scan is non-null, while
  the error of a FAILED scan and the grade of a FINISHED scan are non-null exactly when
  the result's are.
\<close>

theorem insertTestResults_then_selectScan:
  "(PostgreSQLAdapter_selectScan db scanId \<noteq> None \<and> (tests r = [] \<or> site_exists db siteId)
      \<and> update_rejected declared (scan r) = None \<and> score (scan r) \<noteq> Undefined \<longrightarrow>
      (\<exists>db' ret row.
         PostgreSQLAdapter_insertTestResults declared db now siteId scanId r = Inr (db', ret)
         \<and> PostgreSQLAdapter_selectScan db' scanId = Some row
         \<and> sc_state row = (if score (scan r) = Null then ScanState_FAILED else ScanState_FINISHED)
         \<and> sc_score row = stored (score (scan r))
         \<and> (sc_state row = ScanState_FINISHED \<longrightarrow> sc_score row \<noteq> None)
         \<and> sc_grade row = grade (scan r)
         \<and> sc_error row = error (scan r)))
   \<and> (Neo4jAdapter_selectScan g scanId' \<noteq> None \<and> score (scan r) \<noteq> Undefined \<longrightarrow>
      (\<exists>g' ret row.
         Neo4jAdapter_insertTestResults randomUuid g now siteId' scanId' r = Inr (g', ret)
         \<and> Neo4jAdapter_selectScan g' scanId' = Some row
         \<and> r_state row = (if score (scan r) = Null then ScanState_FAILED else ScanState_FINISHED)
         \<and> r_score row = stored (score (scan r))
         \<and> (r_state row = ScanState_FINISHED \<longrightarrow> r_score row \<noteq> None)
         \<and> r_grade row = grade (scan r)
         \<and> r_error row = error (scan r)))"
proof (intro conjI impI)
  assume "PostgreSQLAdapter_selectScan db scanId \<noteq> None \<and> (tests r = [] \<or> site_exists db siteId)
      \<and> update_rejected declared (scan r) = None \<and> score (scan r) \<noteq> Undefined"
  then obtain row0 where "PostgreSQLAdapter_selectScan db scanId = Some row0"
    and "tests r = [] \<or> site_exists db siteId"
    and "update_rejected declared (scan r) = None"
    and present: "score (scan r) \<noteq> Undefined"
    by auto
  from PostgreSQLAdapter_insertTestResults_selectScan [OF this(1,2,3), where now = now]
  obtain db' ret where
    "PostgreSQLAdapter_insertTestResults declared db now siteId scanId r = Inr (db', ret)"
    "PostgreSQLAdapter_selectScan db' scanId = Some (terminal_row now (scan r) row0)"
    by blast
  moreover have "sc_state (terminal_row now (scan r) row0) = ScanState_FINISHED
                   \<longrightarrow> sc_score (terminal_row now (scan r) row0) \<noteq> None"
    using present by (cases "score (scan r)") (simp_all add: terminal_row_def ScanState_defs)
  ultimately show "\<exists>db' ret row.
         PostgreSQLAdapter_insertTestResults declared db now siteId scanId r = Inr (db', ret)
         \<and> PostgreSQLAdapter_selectScan db' scanId = Some row
         \<and> sc_state row = (if score (scan r) = Null then ScanState_FAILED else ScanState_FINISHED)
         \<and> sc_score row = stored (score (scan r))
         \<and> (sc_state row = ScanState_FINISHED \<longrightarrow> sc_score row \<noteq> None)
         \<and> sc_grade row = grade (scan r)
         \<and> sc_error row = error (scan r)"
    by (simp add: terminal_row_def)
next
  assume "Neo4jAdapter_selectScan g scanId' \<noteq> None \<and> score (scan r) \<noteq> Undefined"
  then obtain n ns where "match_Scan g scanId' = n # ns" and present: "score (scan r) \<noteq> Undefined"
    by (auto simp: Neo4jAdapter_selectScan_def split: list.splits)
  from Neo4jAdapter_insertTestResults_selectScan [OF this(1), of randomUuid now siteId' r]
  obtain g' ret where
    "Neo4jAdapter_insertTestResults randomUuid g now siteId' scanId' r = Inr (g', ret)"
    "Neo4jAdapter_selectScan g' scanId' = Some (mapScanRow (terminal_props now (scan r) (snd n)))"
    by blast
  moreover have "r_state (mapScanRow (terminal_props now (scan r) (snd n))) = ScanState_FINISHED
                   \<longrightarrow> r_score (mapScanRow (terminal_props now (scan r) (snd n))) \<noteq> None"
    using present
    by (cases "score (scan r)") (simp_all add: terminal_props_def mapScanRow_def ScanState_defs)
  ultimately show "\<exists>g' ret row.
         Neo4jAdapter_insertTestResults randomUuid g now siteId' scanId' r = Inr (g', ret)
         \<and> Neo4jAdapter_selectScan g' scanId' = Some row
         \<and> r_state row = (if score (scan r) = Null then ScanState_FAILED else ScanState_FINISHED)
         \<and> r_score row = stored (score (scan r))
         \<and> (r_state row = ScanState_FINISHED \<longrightarrow> r_score row \<noteq> None)
         \<and> r_grade row = grade (scan r)
         \<and> r_error row = error (scan r)"
    by (simp add: terminal_props_def mapScanRow_def)
qed

theorem insertTestResults_then_selectScan_witness:
  "PostgreSQLAdapter_selectScan (pg_store [running_row 1 1000]) 1 \<noteq> None
   \<and> site_exists (pg_store [running_row 1 1000]) 1
   \<and> update_rejected example_declaration (summary (Value 105) (Some ''A+'') None) = None
   \<and> score (summary (Value 105) (Some ''A+'') None) \<noteq> Undefined
   \<and> (\<exists>db' ret row.
         PostgreSQLAdapter_insertTestResults example_declaration (pg_store [running_row 1 1000]) 2000 1 1
             \<lparr>scan = summary (Value 105) (Some ''A+'') None, tests = example_tests\<rparr> = Inr (db', ret)
         \<and> PostgreSQLAdapter_selectScan db' 1 = Some row
         \<and> sc_state row = ScanState_FINISHED
         \<and> sc_score row = Some 105
         \<and> sc_grade row = Some ''A+''
         \<and> sc_error row = None)
   \<and> Neo4jAdapter_selectScan (graph_store [running_node ''a'' 1000]) ''a'' \<noteq> None
   \<and> (\<exists>g' ret row.
         Neo4jAdapter_insertTestResults example_uuid (graph_store [running_node ''a'' 1000]) 2000
             ''example_com_1000'' ''a''
             \<lparr>scan = summary (Value 105) (Some ''A+'') None, tests = example_tests\<rparr> = Inr (g', ret)
         \<and> Neo4jAdapter_selectScan g' ''a'' = Some row
         \<and> r_state row = ScanState_FINISHED
         \<and> r_score row = Some 105
         \<and> r_grade row = Some ''A+''
         \<and> r_error row = None)"
proof -
  have h1: "PostgreSQLAdapter_selectScan (pg_store [running_row 1 1000]) 1 \<noteq> None"
    by code_simp
  have h2: "site_exists (pg_store [running_row 1 1000]) 1"
    by code_simp
  have h3: "Neo4jAdapter_selectScan (graph_store [running_node ''a'' 1000]) ''a'' \<noteq> None"
    by code_simp
  have h4: "update_rejected example_declaration (summary (Value 105) (Some ''A+'') None) = None"
    by code_simp
  have h5: "score (summary (Value 105) (Some ''A+'') None) \<noteq> Undefined"
    by (simp add: summary_def)
  show ?thesis
    using h1 h2 h3 h4 h5
      insertTestResults_then_selectScan [where db = "pg_store [running_row 1 1000]"
        and scanId = 1 and siteId = 1 and now = 2000 and declared = example_declaration
        and r = "\<lparr>scan = summary (Value 105) (Some ''A+'') None, tests = example_tests\<rparr>"
        and g = "graph_store [running_node ''a'' 1000]" and scanId' = "''a''"
        and randomUuid = example_uuid and siteId' = "''example_com_1000''"]
    by (simp add: summary_def ScanState_defs) blast
qed

section \<open>Claims about the lifecycle\<close>

subsection \<open>Frame facts\<close>

lemma find_append_Some:
  "find P xs = Some x \<Longrightarrow> find P (xs @ ys) = Some x"
  by (induction xs) (auto split: if_splits)

lemma PostgreSQLAdapter_updateScanState_other:
  "j \<noteq> i \<Longrightarrow>
     PostgreSQLAdapter_selectScan (fst (PostgreSQLAdapter_updateScanState db now j st err)) i
       = PostgreSQLAdapter_selectScan db i"
  by (simp add: PostgreSQLAdapter_updateScanState_def PostgreSQLAdapter_selectScan_def
      find_update_where_other [where key = sc_id])

lemma PostgreSQLAdapter_updateScanState_same:
  "PostgreSQLAdapter_selectScan db i = Some row \<Longrightarrow>
     map_option sc_state
       (PostgreSQLAdapter_selectScan (fst (PostgreSQLAdapter_updateScanState db now i st err)) i)
       = Some st"
  by (simp add: PostgreSQLAdapter_updateScanState_def PostgreSQLAdapter_selectScan_def
      find_update_where_same [where key = sc_id])

lemma PostgreSQLAdapter_insertTestResults_other:
  assumes "j \<noteq> i"
      and "PostgreSQLAdapter_insertTestResults declared db now siteId j r = Inr (db', ret)"
  shows "PostgreSQLAdapter_selectScan db' i = PostgreSQLAdapter_selectScan db i"
proof -
  from PostgreSQLAdapter_insertTestResults_Inr [OF assms(2)]
  have "pg_scans db' = update_where (\<lambda>r. sc_id r = j) (terminal_row now (scan r)) (pg_scans db)"
    by auto
  then show ?thesis
    using assms(1)
    by (simp add: PostgreSQLAdapter_selectScan_def find_update_where_other [where key = sc_id])
qed

lemma PostgreSQLAdapter_insertScan_keeps:
  assumes "PostgreSQLAdapter_selectScan db i = Some row"
      and "PostgreSQLAdapter_insertScan db now siteId = Inr (db', ret)"
  shows "PostgreSQLAdapter_selectScan db' i = Some row"
  using assms
  by (auto simp: PostgreSQLAdapter_insertScan_def PostgreSQLAdapter_selectScan_def Let_def
      find_append_Some split: if_splits)

lemma PostgreSQLAdapter_ensureSite_scans:
  "pg_scans (fst (PostgreSQLAdapter_ensureSite db now siteKey)) = pg_scans db"
  by (simp add: PostgreSQLAdapter_ensureSite_def split: list.splits)

lemma Neo4jAdapter_updateScanState_other:
  assumes "j \<noteq> i"
      and "Neo4jAdapter_updateScanState g now j st err = Inr (g', ret)"
  shows "Neo4jAdapter_selectScan g' i = Neo4jAdapter_selectScan g i"
proof -
  from assms(2) have "g' = set_Scan g j (updateProps now st err)"
    by (auto simp: Neo4jAdapter_updateScanState_def Let_def split: list.splits)
  then show ?thesis
    using assms(1) by (simp add: Neo4jAdapter_selectScan_def match_Scan_set_Scan_other)
qed

lemma Neo4jAdapter_updateScanState_same:
  assumes "Neo4jAdapter_selectScan g i = Some row"
  shows "\<exists>g' ret. Neo4jAdapter_updateScanState g now i st err = Inr (g', ret)
           \<and> r_state ret = st
           \<and> map_option r_state (Neo4jAdapter_selectScan g' i) = Some st"
proof -
  from assms obtain n ns where "match_Scan g i = n # ns"
    by (auto simp: Neo4jAdapter_selectScan_def split: list.splits)
  then show ?thesis
    by (simp add: Neo4jAdapter_updateScanState_def Neo4jAdapter_selectScan_def Let_def
        match_Scan_set_Scan_same mapScanRow_def updateProps_def)
qed

lemma Neo4jAdapter_insertTestResults_other:
  assumes "j \<noteq> i"
      and "Neo4jAdapter_insertTestResults randomUuid g now siteId j r = Inr (g', ret)"
  shows "Neo4jAdapter_selectScan g' i = Neo4jAdapter_selectScan g i"
proof -
  from assms(2) have "g' = set_Scan (run_testQueries randomUuid j g (tests r)) j
                            (terminal_props now (scan r))"
    by (auto simp: Neo4jAdapter_insertTestResults_def Let_def split: list.splits)
  then show ?thesis
    using assms(1) by (simp add: Neo4jAdapter_selectScan_def match_Scan_set_Scan_other)
qed

lemma Scan_nodes_create_Scan:
  "Scan_nodes (create_Scan randomUuid siteId t g n)
     = Scan_nodes g @ [(next_node g, new_Scan (randomUuid (next_node g)) siteId t)]"
  by (simp add: create_Scan_def)

lemma Scan_nodes_create_Scans:
  "\<exists>zs. Scan_nodes (foldl (create_Scan randomUuid siteId t) g ns) = Scan_nodes g @ zs"
proof (induction ns arbitrary: g)
  case Nil
  then show ?case by simp
next
  case (Cons n ns)
  obtain zs where "Scan_nodes (foldl (create_Scan randomUuid siteId t)
                      (create_Scan randomUuid siteId t g n) ns)
                    = Scan_nodes (create_Scan randomUuid siteId t g n) @ zs"
    using Cons.IH by blast
  then show ?case by (simp add: Scan_nodes_create_Scan)
qed

lemma Neo4jAdapter_insertScan_keeps:
  assumes "Neo4jAdapter_selectScan g i = Some row"
      and "Neo4jAdapter_insertScan randomUuid g now siteId = Inr (g', ret)"
  shows "Neo4jAdapter_selectScan g' i = Some row"
proof -
  from assms(2) have g': "g' = foldl (create_Scan randomUuid siteId now) g (map fst (match_Site g siteId))"
    by (auto simp: Neo4jAdapter_insertScan_def Let_def split: list.splits)
  obtain zs where "Scan_nodes g' = Scan_nodes g @ zs"
    unfolding g' using Scan_nodes_create_Scans by blast
  then have "match_Scan g' i = match_Scan g i @ filter (\<lambda>n. n_id (snd n) = i) zs"
    by (simp add: match_Scan_def)
  then show ?thesis
    using assms(1) by (auto simp: Neo4jAdapter_selectScan_def split: list.splits)
qed

lemma Neo4jAdapter_ensureSite_scans:
  "Scan_nodes (fst (Neo4jAdapter_ensureSite g now now' siteKey)) = Scan_nodes g"
  by (simp add: Neo4jAdapter_ensureSite_def split: list.splits)

text \<open>
  C4 (as stated): no operation changes the state of a scan that is FINISHED, FAILED or
  ABORTED. A FINISHED scan is put back to RUNNING by \<open>updateScanState\<close> and is made FAILED
  by \<open>insertTestResults\<close> with a null score, on both backends.
\<close>

theorem terminal_state_overwritten_counterexample:
  "map_option sc_state (PostgreSQLAdapter_selectScan (pg_store [finished_row 1 1000 100]) 1)
     = Some ScanState_FINISHED
   \<and> map_option sc_state
        (PostgreSQLAdapter_selectScan
           (fst (PostgreSQLAdapter_updateScanState (pg_store [finished_row 1 1000 100]) 5000 1
                   ScanState_RUNNING None)) 1)
       = Some ScanState_RUNNING
   \<and> (case PostgreSQLAdapter_insertTestResults example_declaration (pg_store [finished_row 1 1000 100]) 5000 1 1
              \<lparr>scan = summary Null None (Some ''timeout''), tests = []\<rparr> of
         Inl e \<Rightarrow> False
       | Inr (db', ret) \<Rightarrow>
           map_option sc_state (PostgreSQLAdapter_selectScan db' 1) = Some ScanState_FAILED)
   \<and> map_option r_state (Neo4jAdapter_selectScan (graph_store [finished_node ''a'' 1000 100]) ''a'')
       = Some ScanState_FINISHED
   \<and> (case Neo4jAdapter_updateScanState (graph_store [finished_node ''a'' 1000 100]) 5000 ''a''
              ScanState_RUNNING None of
         Inl e \<Rightarrow> False
       | Inr (g', ret) \<Rightarrow>
           map_option r_state (Neo4jAdapter_selectScan g' ''a'') = Some ScanState_RUNNING)
   \<and> (case Neo4jAdapter_insertTestResults example_uuid (graph_store [finished_node ''a'' 1000 100])
              5000 ''example_com_1000'' ''a''
              \<lparr>scan = summary Null None (Some ''timeout''), tests = []\<rparr> of
         Inl e \<Rightarrow> False
       | Inr (g', ret) \<Rightarrow>
           map_option r_state (Neo4jAdapter_selectScan g' ''a'') = Some ScanState_FAILED)"
  by code_simp

text \<open>
  C4 (amended): a scan (terminal or not) is left exactly as it is by every operation that
  does not address it: \<open>updateScanState\<close> and \<open>insertTestResults\<close> called with another scan
  id, \<open>insertScan\<close> and \<open>ensureSite\<close>; \<open>selectScan\<close> reports the same record afterwards.
  The scan that \<open>updateScanState\<close> addresses takes the state passed, whatever state it was
  in. On both backends.
\<close>

theorem scans_not_addressed_are_kept:
  assumes "PostgreSQLAdapter_selectScan db i = Some row"
      and "Neo4jAdapter_selectScan g i' = Some row'"
      and "j \<noteq> i" and "j' \<noteq> i'"
  shows
    "PostgreSQLAdapter_selectScan (fst (PostgreSQLAdapter_updateScanState db now j st err)) i = Some row
     \<and> (\<forall>db' ret. PostgreSQLAdapter_insertTestResults declared db now siteId j r = Inr (db', ret)
           \<longrightarrow> PostgreSQLAdapter_selectScan db' i = Some row)
     \<and> (\<forall>db' ret. PostgreSQLAdapter_insertScan db now siteId = Inr (db', ret)
           \<longrightarrow> PostgreSQLAdapter_selectScan db' i = Some row)
     \<and> PostgreSQLAdapter_selectScan (fst (PostgreSQLAdapter_ensureSite db now siteKey)) i = Some row
     \<and> (\<forall>g' ret. Neo4jAdapter_updateScanState g now j' st err = Inr (g', ret)
           \<longrightarrow> Neo4jAdapter_selectScan g' i' = Some row')
     \<and> (\<forall>g' ret. Neo4jAdapter_insertTestResults randomUuid g now siteId' j' r = Inr (g', ret)
           \<longrightarrow> Neo4jAdapter_selectScan g' i' = Some row')
     \<and> (\<forall>g' ret. Neo4jAdapter_insertScan randomUuid g now siteId' = Inr (g', ret)
           \<longrightarrow> Neo4jAdapter_selectScan g' i' = Some row')
     \<and> Neo4jAdapter_selectScan (fst (Neo4jAdapter_ensureSite g now now' siteKey)) i' = Some row'
     \<and> map_option sc_state
          (PostgreSQLAdapter_selectScan (fst (PostgreSQLAdapter_updateScanState db now i st err)) i)
         = Some st
     \<and> (\<exists>g' ret. Neo4jAdapter_updateScanState g now i' st err = Inr (g', ret)
           \<and> map_option r_state (Neo4jAdapter_selectScan g' i') = Some st)"
proof (intro conjI allI impI)
  show "PostgreSQLAdapter_selectScan (fst (PostgreSQLAdapter_updateScanState db now j st err)) i = Some row"
    using assms(1,3) by (simp add: PostgreSQLAdapter_updateScanState_other)
next
  fix db' ret
  assume "PostgreSQLAdapter_insertTestResults declared db now siteId j r = Inr (db', ret)"
  then show "PostgreSQLAdapter_selectScan db' i = Some row"
    using assms(1,3) by (simp add: PostgreSQLAdapter_insertTestResults_other)
next
  fix db' ret
  assume "PostgreSQLAdapter_insertScan db now siteId = Inr (db', ret)"
  then show "PostgreSQLAdapter_selectScan db' i = Some row"
    using assms(1) by (rule PostgreSQLAdapter_insertScan_keeps [rotated])
next
  show "PostgreSQLAdapter_selectScan (fst (PostgreSQLAdapter_ensureSite db now siteKey)) i = Some row"
    using assms(1) by (simp add: PostgreSQLAdapter_selectScan_def PostgreSQLAdapter_ensureSite_scans)
next
  fix g' ret
  assume "Neo4jAdapter_updateScanState g now j' st err = Inr (g', ret)"
  then show "Neo4jAdapter_selectScan g' i' = Some row'"
    using assms(2,4) by (simp add: Neo4jAdapter_updateScanState_other)
next
  fix g' ret
  assume "Neo4jAdapter_insertTestResults randomUuid g now siteId' j' r = Inr (g', ret)"
  then show "Neo4jAdapter_selectScan g' i' = Some row'"
    using assms(2,4) by (simp add: Neo4jAdapter_insertTestResults_other)
next
  fix g' ret
  assume "Neo4jAdapter_insertScan randomUuid g now siteId' = Inr (g', ret)"
  then show "Neo4jAdapter_selectScan g' i' = Some row'"
    using assms(2) by (rule Neo4jAdapter_insertScan_keeps [rotated])
next
  show "Neo4jAdapter_selectScan (fst (Neo4jAdapter_ensureSite g now now' siteKey)) i' = Some row'"
    using assms(2)
    by (simp add: Neo4jAdapter_selectScan_def match_Scan_def Neo4jAdapter_ensureSite_scans)
next
  show "map_option sc_state
          (PostgreSQLAdapter_selectScan (fst (PostgreSQLAdapter_updateScanState db now i st err)) i)
         = Some st"
    using assms(1) by (rule PostgreSQLAdapter_updateScanState_same)
next
  show "\<exists>g' ret. Neo4jAdapter_updateScanState g now i' st err = Inr (g', ret)
           \<and> map_option r_state (Neo4jAdapter_selectScan g' i') = Some st"
    using Neo4jAdapter_updateScanState_same [OF assms(2), of now st err] by blast
qed

theorem scans_not_addressed_are_kept_witness:
  "PostgreSQLAdapter_selectScan (pg_store [finished_row 1 1000 100, running_row 2 2000]) 1
     = Some (finished_row 1 1000 100)
   \<and> Neo4jAdapter_selectScan (graph_store [finished_node ''a'' 1000 100, running_node ''b'' 2000]) ''a''
     = Some (mapScanRow (finished_node ''a'' 1000 100))
   \<and> (2 :: int) \<noteq> 1 \<and> ''b'' \<noteq> ''a''
   \<and> PostgreSQLAdapter_selectScan
        (fst (PostgreSQLAdapter_updateScanState
                (pg_store [finished_row 1 1000 100, running_row 2 2000]) 5000 2 ScanState_ABORTED None)) 1
       = Some (finished_row 1 1000 100)
   \<and> (\<exists>db' ret.
         PostgreSQLAdapter_insertTestResults example_declaration (pg_store [finished_row 1 1000 100, running_row 2 2000])
            5000 1 2 \<lparr>scan = summary (Value 105) (Some ''A+'') None, tests = example_tests\<rparr>
           = Inr (db', ret)
         \<and> PostgreSQLAdapter_selectScan db' 1 = Some (finished_row 1 1000 100))
   \<and> (\<exists>db' ret.
         PostgreSQLAdapter_insertScan (pg_store [finished_row 1 1000 100, running_row 2 2000]) 5000 1
           = Inr (db', ret)
         \<and> PostgreSQLAdapter_selectScan db' 1 = Some (finished_row 1 1000 100))
   \<and> (\<exists>g' ret.
         Neo4jAdapter_updateScanState (graph_store [finished_node ''a'' 1000 100, running_node ''b'' 2000])
            5000 ''b'' ScanState_ABORTED None = Inr (g', ret)
         \<and> Neo4jAdapter_selectScan g' ''a'' = Some (mapScanRow (finished_node ''a'' 1000 100)))
   \<and> (\<exists>g' ret.
         Neo4jAdapter_insertTestResults example_uuid
            (graph_store [finished_node ''a'' 1000 100, running_node ''b'' 2000]) 5000
            ''example_com_1000'' ''b''
            \<lparr>scan = summary (Value 105) (Some ''A+'') None, tests = example_tests\<rparr> = Inr (g', ret)
         \<and> Neo4jAdapter_selectScan g' ''a'' = Some (mapScanRow (finished_node ''a'' 1000 100)))
   \<and> (\<exists>g' ret.
         Neo4jAdapter_insertScan example_uuid
            (graph_store [finished_node ''a'' 1000 100, running_node ''b'' 2000]) 5000
            ''example_com_1000'' = Inr (g', ret)
         \<and> Neo4jAdapter_selectScan g' ''a'' = Some (mapScanRow (finished_node ''a'' 1000 100)))
   \<and> map_option sc_state
        (PostgreSQLAdapter_selectScan
           (fst (PostgreSQLAdapter_updateScanState
                   (pg_store [finished_row 1 1000 100, running_row 2 2000]) 5000 1 ScanState_ABORTED None)) 1)
       = Some ScanState_ABORTED"
proof -
  let ?db = "pg_store [finished_row 1 1000 100, running_row 2 2000]"
  let ?g = "graph_store [finished_node ''a'' 1000 100, running_node ''b'' 2000]"
  let ?r = "\<lparr>scan = summary (Value 105) (Some ''A+'') None, tests = example_tests\<rparr>"
  have h1: "PostgreSQLAdapter_selectScan ?db 1 = Some (finished_row 1 1000 100)"
    by code_simp
  have h2: "Neo4jAdapter_selectScan ?g ''a'' = Some (mapScanRow (finished_node ''a'' 1000 100))"
    by code_simp
  have h3: "(2 :: int) \<noteq> 1" by simp
  have h4: "''b'' \<noteq> ''a''" by simp
  note kept = scans_not_addressed_are_kept [OF h1 h2 h3 h4, where now = 5000
      and st = ScanState_ABORTED and err = None and siteId = 1 and r = ?r
      and declared = example_declaration
      and siteId' = "''example_com_1000''" and randomUuid = example_uuid
      and now' = 5001 and siteKey = "''example.com''"]
  have "\<not> isl (PostgreSQLAdapter_insertTestResults example_declaration ?db 5000 1 2 ?r)"
    by code_simp
  then have s1: "\<exists>db' ret. PostgreSQLAdapter_insertTestResults example_declaration ?db 5000 1 2 ?r = Inr (db', ret)"
    by (rule not_isl_Inr_pair)
  have "\<not> isl (PostgreSQLAdapter_insertScan ?db 5000 1)"
    by code_simp
  then have s2: "\<exists>db' ret. PostgreSQLAdapter_insertScan ?db 5000 1 = Inr (db', ret)"
    by (rule not_isl_Inr_pair)
  have "\<not> isl (Neo4jAdapter_updateScanState ?g 5000 ''b'' ScanState_ABORTED None)"
    by code_simp
  then have s3: "\<exists>g' ret. Neo4jAdapter_updateScanState ?g 5000 ''b'' ScanState_ABORTED None = Inr (g', ret)"
    by (rule not_isl_Inr_pair)
  have "\<not> isl (Neo4jAdapter_insertTestResults example_uuid ?g 5000 ''example_com_1000'' ''b'' ?r)"
    by code_simp
  then have s4: "\<exists>g' ret. Neo4jAdapter_insertTestResults example_uuid ?g 5000
                    ''example_com_1000'' ''b'' ?r = Inr (g', ret)"
    by (rule not_isl_Inr_pair)
  have "\<not> isl (Neo4jAdapter_insertScan example_uuid ?g 5000 ''example_com_1000'')"
    by code_simp
  then have s5: "\<exists>g' ret. Neo4jAdapter_insertScan example_uuid ?g 5000 ''example_com_1000''
                    = Inr (g', ret)"
    by (rule not_isl_Inr_pair)
  show ?thesis
    using h1 h2 h3 h4 kept s1 s2 s3 s4 s5 by blast
qed

subsection \<open>Facts about the invariant\<close>

lemma list_all_update_where:
  "list_all P rows \<Longrightarrow> (\<And>r. P (f r)) \<Longrightarrow> list_all P (update_where p f rows)"
  by (induction rows) (simp_all add: update_where_def)

lemma list_all_set_Scan:
  "list_all P (map snd (Scan_nodes g)) \<Longrightarrow> (\<And>p. P (f p))
     \<Longrightarrow> list_all P (map snd (Scan_nodes (set_Scan g i f)))"
  unfolding set_Scan_def by (induction "Scan_nodes g" arbitrary: g) (auto simp: list_all_iff)

lemma finished_has_score_terminal_row:
  "score s \<noteq> Undefined \<Longrightarrow> finished_has_score_row (terminal_row now s r)"
  by (cases "score s") (simp_all add: finished_has_score_row_def terminal_row_def ScanState_defs)

lemma finished_has_score_terminal_props:
  "score s \<noteq> Undefined \<Longrightarrow> finished_has_score_node (terminal_props now s p)"
  by (cases "score s") (simp_all add: finished_has_score_node_def terminal_props_def ScanState_defs)

lemma finished_has_score_updateProps:
  "st \<noteq> ScanState_FINISHED \<Longrightarrow> finished_has_score_node (updateProps now st err p)"
  by (simp add: finished_has_score_node_def updateProps_def Let_def)

lemma finished_has_score_new_Scan: "finished_has_score_node (new_Scan u siteId t)"
  by (simp add: finished_has_score_node_def new_Scan_def ScanState_defs)

lemma list_all_create_Scans:
  "list_all finished_has_score_node (map snd (Scan_nodes g))
     \<Longrightarrow> list_all finished_has_score_node
           (map snd (Scan_nodes (foldl (create_Scan randomUuid siteId t) g ns)))"
proof (induction ns arbitrary: g)
  case Nil
  then show ?case by simp
next
  case (Cons n ns)
  have "list_all finished_has_score_node
          (map snd (Scan_nodes (create_Scan randomUuid siteId t g n)))"
    using Cons.prems by (simp add: Scan_nodes_create_Scan finished_has_score_new_Scan)
  then show ?case
    using Cons.IH by simp
qed

lemma PostgreSQLAdapter_insertScan_finished_has_score:
  "list_all finished_has_score_row (pg_scans db)
     \<Longrightarrow> PostgreSQLAdapter_insertScan db now siteId = Inr (db', ret)
     \<Longrightarrow> list_all finished_has_score_row (pg_scans db')"
  by (auto simp: PostgreSQLAdapter_insertScan_def Let_def finished_has_score_row_def
      ScanState_defs split: if_splits)

lemma PostgreSQLAdapter_insertTestResults_finished_has_score:
  assumes "list_all finished_has_score_row (pg_scans db)"
      and "score (scan r) \<noteq> Undefined"
      and "PostgreSQLAdapter_insertTestResults declared db now siteId scanId r = Inr (db', ret)"
  shows "list_all finished_has_score_row (pg_scans db')"
proof -
  from PostgreSQLAdapter_insertTestResults_Inr [OF assms(3)]
  have "pg_scans db' = update_where (\<lambda>r. sc_id r = scanId) (terminal_row now (scan r)) (pg_scans db)"
    by auto
  then show ?thesis
    using assms(1,2)
    by (simp add: list_all_update_where finished_has_score_terminal_row)
qed

lemma PostgreSQLAdapter_updateScanState_finished_has_score:
  assumes "list_all finished_has_score_row (pg_scans db)" and "st \<noteq> ScanState_FINISHED"
  shows "list_all finished_has_score_row
           (pg_scans (fst (PostgreSQLAdapter_updateScanState db now scanId st err)))"
  using assms
  by (simp add: PostgreSQLAdapter_updateScanState_def list_all_update_where
      finished_has_score_row_def)

lemma Neo4jAdapter_insertScan_finished_has_score:
  assumes "list_all finished_has_score_node (map snd (Scan_nodes g))"
      and "Neo4jAdapter_insertScan randomUuid g now siteId = Inr (g', ret)"
  shows "list_all finished_has_score_node (map snd (Scan_nodes g'))"
proof -
  from assms(2) have "g' = foldl (create_Scan randomUuid siteId now) g (map fst (match_Site g siteId))"
    by (auto simp: Neo4jAdapter_insertScan_def Let_def split: list.splits)
  then show ?thesis
    using assms(1) by (simp add: list_all_create_Scans)
qed

lemma Neo4jAdapter_insertTestResults_finished_has_score:
  assumes "list_all finished_has_score_node (map snd (Scan_nodes g))"
      and "score (scan r) \<noteq> Undefined"
      and "Neo4jAdapter_insertTestResults randomUuid g now siteId scanId r = Inr (g', ret)"
  shows "list_all finished_has_score_node (map snd (Scan_nodes g'))"
proof -
  from assms(3) have g': "g' = set_Scan (run_testQueries randomUuid scanId g (tests r)) scanId
                            (terminal_props now (scan r))"
    by (auto simp: Neo4jAdapter_insertTestResults_def Let_def split: list.splits)
  have "list_all finished_has_score_node
          (map snd (Scan_nodes (run_testQueries randomUuid scanId g (tests r))))"
    using assms(1) by simp
  then show ?thesis
    unfolding g' by (rule list_all_set_Scan) (rule finished_has_score_terminal_props [OF assms(2)])
qed

lemma Neo4jAdapter_updateScanState_finished_has_score:
  assumes "list_all finished_has_score_node (map snd (Scan_nodes g))"
      and "st \<noteq> ScanState_FINISHED"
      and "Neo4jAdapter_updateScanState g now scanId st err = Inr (g', ret)"
  shows "list_all finished_has_score_node (map snd (Scan_nodes g'))"
proof -
  from assms(3) have g': "g' = set_Scan g scanId (updateProps now st err)"
    by (auto simp: Neo4jAdapter_updateScanState_def Let_def split: list.splits)
  show ?thesis
    unfolding g' using assms(1)
    by (rule list_all_set_Scan) (rule finished_has_score_updateProps [OF assms(2)])
qed

text \<open>
  C5 (as stated): the invariant of the data model is preserved by \<open>insertScan\<close>,
  \<open>insertTestResults\<close> and \<open>updateScanState\<close>. The store holding the one scan that
  \<open>insertScan\<close> has just created satisfies it; it no longer does after
  \<open>insertTestResults\<close> with a null score and an error (end time set, score null), after
  \<open>updateScanState\<close> to FAILED without an error (FAILED, error null), or after
  \<open>updateScanState\<close> to FINISHED (FINISHED, score null). On both backends. Nor does
  \<open>insertTestResults\<close> keep its FINISHED clause for every argument: a result that has no
  score field is stored as a FINISHED scan with a null score.
\<close>

theorem spec_invariant_broken_counterexample:
  "PostgreSQLAdapter_insertScan (pg_store []) 1000 1
     = Inr (pg_store [running_row 1 1000], running_row 1 1000)
   \<and> list_all spec_invariant_row (pg_scans (pg_store [running_row 1 1000]))
   \<and> (case PostgreSQLAdapter_insertTestResults example_declaration (pg_store [running_row 1 1000]) 2000 1 1
              \<lparr>scan = summary Null None (Some ''timeout''), tests = example_tests\<rparr> of
         Inl e \<Rightarrow> False
       | Inr (db', ret) \<Rightarrow> \<not> list_all spec_invariant_row (pg_scans db'))
   \<and> \<not> list_all spec_invariant_row
          (pg_scans (fst (PostgreSQLAdapter_updateScanState (pg_store [running_row 1 1000]) 2000 1
                            ScanState_FAILED None)))
   \<and> \<not> list_all spec_invariant_row
          (pg_scans (fst (PostgreSQLAdapter_updateScanState (pg_store [running_row 1 1000]) 2000 1
                            ScanState_FINISHED None)))
   \<and> (case Neo4jAdapter_insertScan example_uuid (graph_store []) 1000 ''example_com_1000'' of Inl e \<Rightarrow> None | Inr (g', ret) \<Rightarrow> Some g')
       = Some (graph_store [running_node ''uuid-1'' 1000])
   \<and> list_all spec_invariant_node (map snd (Scan_nodes (graph_store [running_node ''uuid-1'' 1000])))
   \<and> (case Neo4jAdapter_insertTestResults example_uuid (graph_store [running_node ''uuid-1'' 1000])
              2000 ''example_com_1000'' ''uuid-1''
              \<lparr>scan = summary Null None (Some ''timeout''), tests = example_tests\<rparr> of
         Inl e \<Rightarrow> False
       | Inr (g', ret) \<Rightarrow> \<not> list_all spec_invariant_node (map snd (Scan_nodes g')))
   \<and> (case Neo4jAdapter_updateScanState (graph_store [running_node ''uuid-1'' 1000]) 2000 ''uuid-1''
              ScanState_FAILED None of
         Inl e \<Rightarrow> False
       | Inr (g', ret) \<Rightarrow> \<not> list_all spec_invariant_node (map snd (Scan_nodes g')))
   \<and> (case Neo4jAdapter_updateScanState (graph_store [running_node ''uuid-1'' 1000]) 2000 ''uuid-1''
              ScanState_FINISHED None of
         Inl e \<Rightarrow> False
       | Inr (g', ret) \<Rightarrow> \<not> list_all spec_invariant_node (map snd (Scan_nodes g')))
   \<and> (case PostgreSQLAdapter_insertTestResults example_declaration (pg_store [running_row 1 1000]) 2000 1 1
              \<lparr>scan = summary Undefined (Some ''A'') None, tests = example_tests\<rparr> of
         Inl e \<Rightarrow> False
       | Inr (db', ret) \<Rightarrow>
           map_option (\<lambda>row. (sc_state row, sc_score row)) (PostgreSQLAdapter_selectScan db' 1)
             = Some (ScanState_FINISHED, None)
           \<and> \<not> list_all finished_has_score_row (pg_scans db'))
   \<and> (case Neo4jAdapter_insertTestResults example_uuid (graph_store [running_node ''uuid-1'' 1000])
              2000 ''example_com_1000'' ''uuid-1''
              \<lparr>scan = summary Undefined (Some ''A'') None, tests = example_tests\<rparr> of
         Inl e \<Rightarrow> False
       | Inr (g', ret) \<Rightarrow>
           map_option (\<lambda>row. (r_state row, r_score row)) (Neo4jAdapter_selectScan g' ''uuid-1'')
             = Some (ScanState_FINISHED, None)
           \<and> \<not> list_all finished_has_score_node (map snd (Scan_nodes g')))"
  by code_simp

text \<open>
  C5 (amended): "every scan in state FINISHED has a non-null score" is an invariant of the
  store that \<open>insertScan\<close> preserves for all arguments, that \<open>insertTestResults\<close> preserves
  for every result whose score is present (null or a number), and that \<open>updateScanState\<close>
  preserves whenever the state passed is not FINISHED (it is documented for ABORTED and
  FAILED), on both backends. End time, grade and score are not kept null or set together
  (a scan made FAILED has an end time and no score; the grade is stored as supplied), and
  a FAILED scan's error is stored as supplied.
\<close>

theorem finished_scans_have_a_score:
  assumes "list_all finished_has_score_row (pg_scans db)"
      and "list_all finished_has_score_node (map snd (Scan_nodes g))"
      and "st \<noteq> ScanState_FINISHED"
      and "score (scan r) \<noteq> Undefined"
  shows
    "(\<forall>db' ret. PostgreSQLAdapter_insertScan db now siteId = Inr (db', ret)
        \<longrightarrow> list_all finished_has_score_row (pg_scans db'))
     \<and> (\<forall>db' ret. PostgreSQLAdapter_insertTestResults declared db now siteId scanId r = Inr (db', ret)
        \<longrightarrow> list_all finished_has_score_row (pg_scans db'))
     \<and> list_all finished_has_score_row
          (pg_scans (fst (PostgreSQLAdapter_updateScanState db now scanId st err)))
     \<and> (\<forall>g' ret. Neo4jAdapter_insertScan randomUuid g now siteId' = Inr (g', ret)
        \<longrightarrow> list_all finished_has_score_node (map snd (Scan_nodes g')))
     \<and> (\<forall>g' ret. Neo4jAdapter_insertTestResults randomUuid g now siteId' scanId' r = Inr (g', ret)
        \<longrightarrow> list_all finished_has_score_node (map snd (Scan_nodes g')))
     \<and> (\<forall>g' ret. Neo4jAdapter_updateScanState g now scanId' st err = Inr (g', ret)
        \<longrightarrow> list_all finished_has_score_node (map snd (Scan_nodes g')))"
  using assms
    PostgreSQLAdapter_insertScan_finished_has_score [of db now siteId]
    PostgreSQLAdapter_insertTestResults_finished_has_score
      [where db = db and r = r and declared = declared and now = now and siteId = siteId
         and scanId = scanId]
    PostgreSQLAdapter_updateScanState_finished_has_score [of db st now scanId err]
    Neo4jAdapter_insertScan_finished_has_score [of g randomUuid now siteId']
    Neo4jAdapter_insertTestResults_finished_has_score
      [where g = g and r = r and randomUuid = randomUuid and now = now and siteId = siteId'
         and scanId = scanId']
    Neo4jAdapter_updateScanState_finished_has_score [of g st now scanId' err]
  by blast

theorem finished_scans_have_a_score_witness:
  "list_all finished_has_score_row (pg_scans (pg_store [finished_row 1 1000 100, running_row 2 2000]))
   \<and> list_all finished_has_score_node
        (map snd (Scan_nodes (graph_store [finished_node ''a'' 1000 100, running_node ''b'' 2000])))
   \<and> ScanState_ABORTED \<noteq> ScanState_FINISHED
   \<and> score (summary Null None (Some ''timeout'')) \<noteq> Undefined
   \<and> (\<exists>db' ret.
         PostgreSQLAdapter_insertScan (pg_store [finished_row 1 1000 100, running_row 2 2000]) 5000 1
           = Inr (db', ret)
         \<and> list_all finished_has_score_row (pg_scans db'))
   \<and> (\<exists>db' ret.
         PostgreSQLAdapter_insertTestResults example_declaration (pg_store [finished_row 1 1000 100, running_row 2 2000])
            5000 1 2 \<lparr>scan = summary Null None (Some ''timeout''), tests = example_tests\<rparr>
           = Inr (db', ret)
         \<and> list_all finished_has_score_row (pg_scans db'))
   \<and> list_all finished_has_score_row
        (pg_scans (fst (PostgreSQLAdapter_updateScanState
                          (pg_store [finished_row 1 1000 100, running_row 2 2000]) 5000 2
                          ScanState_ABORTED None)))
   \<and> (\<exists>g' ret.
         Neo4jAdapter_insertScan example_uuid
            (graph_store [finished_node ''a'' 1000 100, running_node ''b'' 2000]) 5000
            ''example_com_1000'' = Inr (g', ret)
         \<and> list_all finished_has_score_node (map snd (Scan_nodes g')))
   \<and> (\<exists>g' ret.
         Neo4jAdapter_insertTestResults example_uuid
            (graph_store [finished_node ''a'' 1000 100, running_node ''b'' 2000]) 5000
            ''example_com_1000'' ''b''
            \<lparr>scan = summary Null None (Some ''timeout''), tests = example_tests\<rparr> = Inr (g', ret)
         \<and> list_all finished_has_score_node (map snd (Scan_nodes g')))
   \<and> (\<exists>g' ret.
         Neo4jAdapter_updateScanState (graph_store [finished_node ''a'' 1000 100, running_node ''b'' 2000])
            5000 ''b'' ScanState_ABORTED None = Inr (g', ret)
         \<and> list_all finished_has_score_node (map snd (Scan_nodes g')))"
proof -
  let ?db = "pg_store [finished_row 1 1000 100, running_row 2 2000]"
  let ?g = "graph_store [finished_node ''a'' 1000 100, running_node ''b'' 2000]"
  let ?r = "\<lparr>scan = summary Null None (Some ''timeout''), tests = example_tests\<rparr>"
  have h1: "list_all finished_has_score_row (pg_scans ?db)"
    by code_simp
  have h2: "list_all finished_has_score_node (map snd (Scan_nodes ?g))"
    by code_simp
  have h3: "ScanState_ABORTED \<noteq> ScanState_FINISHED"
    by (simp add: ScanState_defs)
  have h4: "score (summary Null None (Some ''timeout'')) \<noteq> Undefined"
    by (simp add: summary_def)
  have h4': "score (scan ?r) \<noteq> Undefined"
    using h4 by simp
  note inv = finished_scans_have_a_score [OF h1 h2 h3 h4', where now = 5000 and siteId = 1
      and scanId = 2 and err = None and randomUuid = example_uuid
      and declared = example_declaration
      and siteId' = "''example_com_1000''" and scanId' = "''b''"]
  have "\<not> isl (PostgreSQLAdapter_insertScan ?db 5000 1)"
    by code_simp
  then have s1: "\<exists>db' ret. PostgreSQLAdapter_insertScan ?db 5000 1 = Inr (db', ret)"
    by (rule not_isl_Inr_pair)
  have "\<not> isl (PostgreSQLAdapter_insertTestResults example_declaration ?db 5000 1 2 ?r)"
    by code_simp
  then have s2: "\<exists>db' ret. PostgreSQLAdapter_insertTestResults example_declaration ?db 5000 1 2 ?r = Inr (db', ret)"
    by (rule not_isl_Inr_pair)
  have "\<not> isl (Neo4jAdapter_insertScan example_uuid ?g 5000 ''example_com_1000'')"
    by code_simp
  then have s3: "\<exists>g' ret. Neo4jAdapter_insertScan example_uuid ?g 5000 ''example_com_1000''
                    = Inr (g', ret)"
    by (rule not_isl_Inr_pair)
  have "\<not> isl (Neo4jAdapter_insertTestResults example_uuid ?g 5000 ''example_com_1000'' ''b'' ?r)"
    by code_simp
  then have s4: "\<exists>g' ret. Neo4jAdapter_insertTestResults example_uuid ?g 5000
                    ''example_com_1000'' ''b'' ?r = Inr (g', ret)"
    by (rule not_isl_Inr_pair)
  have "\<not> isl (Neo4jAdapter_updateScanState ?g 5000 ''b'' ScanState_ABORTED None)"
    by code_simp
  then have s5: "\<exists>g' ret. Neo4jAdapter_updateScanState ?g 5000 ''b'' ScanState_ABORTED None
                    = Inr (g', ret)"
    by (rule not_isl_Inr_pair)
  show ?thesis
    using h1 h2 h3 h4 inv s1 s2 s3 s4 s5 by blast
qed

section \<open>Claims about updateScanState\<close>

lemma PostgreSQLAdapter_updateScanState_without_error:
  "PostgreSQLAdapter_selectScan db scanId = Some row \<Longrightarrow>
     PostgreSQLAdapter_selectScan (fst (PostgreSQLAdapter_updateScanState db now scanId st None)) scanId
       = Some (row\<lparr>sc_state := st\<rparr>)"
  by (simp add: PostgreSQLAdapter_updateScanState_def PostgreSQLAdapter_selectScan_def
      find_update_where_same [where key = sc_id])

lemma Neo4jAdapter_updateScanState_without_error:
  assumes "match_Scan g scanId = n # ns"
  shows "\<exists>g'. Neo4jAdapter_updateScanState g now scanId st None
                = Inr (g', mapScanRow ((snd n)\<lparr>n_state := st, n_endTime := None\<rparr>))
           \<and> Neo4jAdapter_selectScan g' scanId
                = Some (mapScanRow ((snd n)\<lparr>n_state := st, n_endTime := None\<rparr>))"
  using assms
  by (simp add: Neo4jAdapter_updateScanState_def Neo4jAdapter_selectScan_def Let_def
      match_Scan_set_Scan_same updateProps_def)

text \<open>
  C8: \<open>updateScanState(scanId, state)\<close> without an error leaves every field but the state
  as it was. Evaluated on a scan that has an end time (1500), the relational adapter keeps
  the end time; the graph adapter passes \<open>endTime: null\<close> in the properties it sets and
  so removes it: the record it returns and the one \<open>selectScan\<close> reports afterwards have no
  end time.
\<close>

theorem Neo4jAdapter_updateScanState_erases_end_time:
  "map_option r_end_time (Neo4jAdapter_selectScan (graph_store [finished_node ''a'' 1000 100]) ''a'')
     = Some (Some 1500)
   \<and> (case Neo4jAdapter_updateScanState (graph_store [finished_node ''a'' 1000 100]) 5000 ''a''
              ScanState_ABORTED None of
         Inl e \<Rightarrow> False
       | Inr (g', ret) \<Rightarrow>
           r_end_time ret = None
           \<and> map_option r_end_time (Neo4jAdapter_selectScan g' ''a'') = Some None
           \<and> map_option n_endTime (map_option snd (find (\<lambda>n. n_id (snd n) = ''a'') (Scan_nodes g')))
               = Some None)
   \<and> map_option sc_end_time
        (PostgreSQLAdapter_selectScan
           (fst (PostgreSQLAdapter_updateScanState (pg_store [finished_row 1 1000 100]) 5000 1
                   ScanState_ABORTED None)) 1)
       = Some (Some 1500)"
  by code_simp

section \<open>Claims about ensureSite\<close>

lemma sort_key_eq_Nil_iff: "sort_key f xs = [] \<longleftrightarrow> xs = []"
  by (metis length_0_conv length_sort)

lemma PostgreSQLAdapter_ensureSite_twice:
  "PostgreSQLAdapter_ensureSite (fst (PostgreSQLAdapter_ensureSite db now siteKey)) now' siteKey
     = (fst (PostgreSQLAdapter_ensureSite db now siteKey),
        snd (PostgreSQLAdapter_ensureSite db now siteKey))"
proof (cases "sort_key (\<lambda>s. - int (si_creation_time s))
                (filter (\<lambda>s. si_domain s = siteKey) (pg_sites db))")
  case Nil
  then have none: "filter (\<lambda>s. si_domain s = siteKey) (pg_sites db) = []"
    by (simp add: sort_key_eq_Nil_iff)
  show ?thesis
    by (simp add: PostgreSQLAdapter_ensureSite_def none)
next
  case (Cons s ss)
  then show ?thesis
    by (simp add: PostgreSQLAdapter_ensureSite_def)
qed

lemma Neo4jAdapter_ensureSite_twice:
  "Neo4jAdapter_ensureSite (fst (Neo4jAdapter_ensureSite g t1 t2 siteKey)) t3 t4 siteKey
     = (fst (Neo4jAdapter_ensureSite g t1 t2 siteKey),
        snd (Neo4jAdapter_ensureSite g t1 t2 siteKey))"
proof (cases "sort_key (\<lambda>s. - int (ns_creationTime s))
                (map snd (filter (\<lambda>n. ns_domain (snd n) = siteKey) (Site_nodes g)))")
  case Nil
  then have none: "filter (\<lambda>n. ns_domain (snd n) = siteKey) (Site_nodes g) = []"
    by (simp add: sort_key_eq_Nil_iff)
  show ?thesis
    by (simp add: Neo4jAdapter_ensureSite_def none)
next
  case (Cons s ss)
  then show ?thesis
    by (simp add: Neo4jAdapter_ensureSite_def)
qed

text \<open>
  C9: two sequential calls of \<open>ensureSite\<close> with the same key return the same site
  identifier, whatever the clock reads at each call, and the second call leaves the store
  as the first left it. On both backends.
\<close>

theorem ensureSite_idempotent:
  "snd (PostgreSQLAdapter_ensureSite (fst (PostgreSQLAdapter_ensureSite db now siteKey)) now' siteKey)
     = snd (PostgreSQLAdapter_ensureSite db now siteKey)
   \<and> fst (PostgreSQLAdapter_ensureSite (fst (PostgreSQLAdapter_ensureSite db now siteKey)) now' siteKey)
     = fst (PostgreSQLAdapter_ensureSite db now siteKey)
   \<and> snd (Neo4jAdapter_ensureSite (fst (Neo4jAdapter_ensureSite g t1 t2 siteKey)) t3 t4 siteKey)
     = snd (Neo4jAdapter_ensureSite g t1 t2 siteKey)
   \<and> fst (Neo4jAdapter_ensureSite (fst (Neo4jAdapter_ensureSite g t1 t2 siteKey)) t3 t4 siteKey)
     = fst (Neo4jAdapter_ensureSite g t1 t2 siteKey)"
  by (simp add: PostgreSQLAdapter_ensureSite_twice Neo4jAdapter_ensureSite_twice)

section \<open>Claims about insertScan\<close>

lemma Neo4jAdapter_insertScan_found:
  assumes "match_Site g siteId = m # ms"
  shows "\<exists>g' zs. Neo4jAdapter_insertScan randomUuid g now siteId
                    = Inr (g', mapScanRow (new_Scan (randomUuid (next_node g)) siteId now))
           \<and> Scan_nodes g' = Scan_nodes g
                @ (next_node g, new_Scan (randomUuid (next_node g)) siteId now) # zs"
proof -
  let ?g1 = "create_Scan randomUuid siteId now g (fst m)"
  obtain zs where zs: "Scan_nodes (foldl (create_Scan randomUuid siteId now) ?g1 (map fst ms))
                         = Scan_nodes ?g1 @ zs"
    using Scan_nodes_create_Scans by blast
  have nodes: "Scan_nodes (foldl (create_Scan randomUuid siteId now) g (map fst (match_Site g siteId)))
                 = Scan_nodes g @ (next_node g, new_Scan (randomUuid (next_node g)) siteId now) # zs"
    using zs by (simp add: assms Scan_nodes_create_Scan)
  have dropped: "drop (length (Scan_nodes g))
                   (Scan_nodes (foldl (create_Scan randomUuid siteId now) g
                                  (map fst (match_Site g siteId))))
                  = (next_node g, new_Scan (randomUuid (next_node g)) siteId now) # zs"
    by (simp add: nodes)
  have "Neo4jAdapter_insertScan randomUuid g now siteId
          = Inr (foldl (create_Scan randomUuid siteId now) g (map fst (match_Site g siteId)),
                 mapScanRow (new_Scan (randomUuid (next_node g)) siteId now))"
    by (simp add: Neo4jAdapter_insertScan_def Let_def dropped mapScanRow_def new_Scan_def)
  then show ?thesis
    using nodes by blast
qed

lemma Neo4jAdapter_insertScan_not_found:
  "match_Site g siteId = [] \<Longrightarrow>
     Neo4jAdapter_insertScan randomUuid g now siteId = Inl (Error (''Site not found: '' @ siteId))"
  by (simp add: Neo4jAdapter_insertScan_def)

text \<open>
  C7: for a site that exists, \<open>insertScan\<close> stores a new scan in state RUNNING, with the
  three counts zero and the clock reading as start time, and returns its record, which
  carries the new identifier (the next value of the key sequence, respectively the UUID
  drawn for the new node) and no end time, grade, score or error. For a site that does not
  exist it throws and stores nothing: the graph adapter raises \<open>Site not found\<close>, the
  relational adapter propagates the engine's foreign-key rejection of the insert.
\<close>

theorem insertScan_creates_running_scan:
  "(site_exists db siteId \<longrightarrow>
      (\<exists>db' row.
         PostgreSQLAdapter_insertScan db now siteId = Inr (db', row)
         \<and> pg_scans db' = pg_scans db @ [row]
         \<and> sc_id row = pg_scans_id_seq db + 1
         \<and> sc_site_id row = siteId
         \<and> sc_state row = ScanState_RUNNING
         \<and> sc_start_time row = now
         \<and> sc_tests_passed row = 0 \<and> sc_tests_failed row = 0 \<and> sc_tests_quantity row = 0
         \<and> sc_end_time row = None \<and> sc_grade row = None \<and> sc_score row = None
         \<and> sc_error row = None))
   \<and> (\<not> site_exists db siteId \<longrightarrow>
        PostgreSQLAdapter_insertScan db now siteId = Inl (DatabaseError foreign_key_violation))
   \<and> (match_Site g siteId' \<noteq> [] \<longrightarrow>
      (\<exists>g' row node.
         Neo4jAdapter_insertScan randomUuid g now siteId' = Inr (g', row)
         \<and> (next_node g, node) \<in> set (Scan_nodes g')
         \<and> length (Scan_nodes g) < length (Scan_nodes g')
         \<and> mapScanRow node = row
         \<and> r_id row = randomUuid (next_node g)
         \<and> r_site_id row = siteId'
         \<and> r_state row = ScanState_RUNNING
         \<and> r_start_time row = now
         \<and> r_tests_passed row = 0 \<and> r_tests_failed row = 0 \<and> r_tests_quantity row = 0
         \<and> r_end_time row = None \<and> r_grade row = None \<and> r_score row = None
         \<and> r_error row = None))
   \<and> (match_Site g siteId' = [] \<longrightarrow>
        Neo4jAdapter_insertScan randomUuid g now siteId' = Inl (Error (''Site not found: '' @ siteId')))"
proof (intro conjI impI)
  assume "site_exists db siteId"
  then show "\<exists>db' row.
         PostgreSQLAdapter_insertScan db now siteId = Inr (db', row)
         \<and> pg_scans db' = pg_scans db @ [row]
         \<and> sc_id row = pg_scans_id_seq db + 1
         \<and> sc_site_id row = siteId
         \<and> sc_state row = ScanState_RUNNING
         \<and> sc_start_time row = now
         \<and> sc_tests_passed row = 0 \<and> sc_tests_failed row = 0 \<and> sc_tests_quantity row = 0
         \<and> sc_end_time row = None \<and> sc_grade row = None \<and> sc_score row = None
         \<and> sc_error row = None"
    by (simp add: PostgreSQLAdapter_insertScan_def Let_def scans_default_tests_failed_def
        scans_default_tests_passed_def)
next
  assume "\<not> site_exists db siteId"
  then show "PostgreSQLAdapter_insertScan db now siteId = Inl (DatabaseError foreign_key_violation)"
    by (simp add: PostgreSQLAdapter_insertScan_def)
next
  assume "match_Site g siteId' \<noteq> []"
  then obtain m ms where "match_Site g siteId' = m # ms"
    by (cases "match_Site g siteId'") auto
  from Neo4jAdapter_insertScan_found [OF this, of randomUuid now]
  obtain g' zs where
    run: "Neo4jAdapter_insertScan randomUuid g now siteId'
            = Inr (g', mapScanRow (new_Scan (randomUuid (next_node g)) siteId' now))"
    and nodes: "Scan_nodes g' = Scan_nodes g
            @ (next_node g, new_Scan (randomUuid (next_node g)) siteId' now) # zs"
    by blast
  show "\<exists>g' row node.
         Neo4jAdapter_insertScan randomUuid g now siteId' = Inr (g', row)
         \<and> (next_node g, node) \<in> set (Scan_nodes g')
         \<and> length (Scan_nodes g) < length (Scan_nodes g')
         \<and> mapScanRow node = row
         \<and> r_id row = randomUuid (next_node g)
         \<and> r_site_id row = siteId'
         \<and> r_state row = ScanState_RUNNING
         \<and> r_start_time row = now
         \<and> r_tests_passed row = 0 \<and> r_tests_failed row = 0 \<and> r_tests_quantity row = 0
         \<and> r_end_time row = None \<and> r_grade row = None \<and> r_score row = None
         \<and> r_error row = None"
    apply (rule exI [of _ g'])
    apply (rule exI [of _ "mapScanRow (new_Scan (randomUuid (next_node g)) siteId' now)"])
    apply (rule exI [of _ "new_Scan (randomUuid (next_node g)) siteId' now"])
    apply (simp add: run nodes mapScanRow_def new_Scan_def)
    done
next
  assume "match_Site g siteId' = []"
  then show "Neo4jAdapter_insertScan randomUuid g now siteId'
               = Inl (Error (''Site not found: '' @ siteId'))"
    by (rule Neo4jAdapter_insertScan_not_found)
qed

theorem insertScan_creates_running_scan_witness:
  "site_exists (pg_store []) 1
   \<and> PostgreSQLAdapter_insertScan (pg_store []) 1000 1
       = Inr (pg_store [running_row 1 1000], running_row 1 1000)
   \<and> \<not> site_exists (pg_store []) 7
   \<and> PostgreSQLAdapter_insertScan (pg_store []) 1000 7 = Inl (DatabaseError foreign_key_violation)
   \<and> match_Site (graph_store []) ''example_com_1000'' \<noteq> []
   \<and> (\<exists>g' row.
         Neo4jAdapter_insertScan example_uuid (graph_store []) 1000 ''example_com_1000'' = Inr (g', row)
         \<and> r_id row = example_uuid 1
         \<and> r_state row = ScanState_RUNNING
         \<and> r_tests_passed row = 0 \<and> r_tests_failed row = 0 \<and> r_tests_quantity row = 0)
   \<and> match_Site (graph_store []) ''nowhere'' = []
   \<and> Neo4jAdapter_insertScan example_uuid (graph_store []) 1000 ''nowhere''
       = Inl (Error ''Site not found: nowhere'')"
proof -
  have h1: "site_exists (pg_store []) 1" by code_simp
  have h2: "\<not> site_exists (pg_store []) 7" by code_simp
  have h3: "match_Site (graph_store []) ''example_com_1000'' \<noteq> []" by code_simp
  have h4: "match_Site (graph_store []) ''nowhere'' = []" by code_simp
  have n: "next_node (graph_store []) = 1" by code_simp
  have r: "PostgreSQLAdapter_insertScan (pg_store []) 1000 1
             = Inr (pg_store [running_row 1 1000], running_row 1 1000)"
    by code_simp
  note a = insertScan_creates_running_scan [where db = "pg_store []" and siteId = 7
      and now = 1000 and g = "graph_store []" and siteId' = "''example_com_1000''"
      and randomUuid = example_uuid]
  note b = insertScan_creates_running_scan [where db = "pg_store []" and siteId = 1
      and now = 1000 and g = "graph_store []" and siteId' = "''nowhere''"
      and randomUuid = example_uuid]
  have c1: "PostgreSQLAdapter_insertScan (pg_store []) 1000 7 = Inl (DatabaseError foreign_key_violation)"
    using a h2 by blast
  have c2: "\<exists>g' row.
         Neo4jAdapter_insertScan example_uuid (graph_store []) 1000 ''example_com_1000'' = Inr (g', row)
         \<and> r_id row = example_uuid 1
         \<and> r_state row = ScanState_RUNNING
         \<and> r_tests_passed row = 0 \<and> r_tests_failed row = 0 \<and> r_tests_quantity row = 0"
    using a h3 unfolding n by blast
  have c3: "Neo4jAdapter_insertScan example_uuid (graph_store []) 1000 ''nowhere''
       = Inl (Error ''Site not found: nowhere'')"
    using b h4 by simp
  show ?thesis
    using h1 h2 h3 h4 r c1 c2 c3 by blast
qed

section \<open>Claims about the order of the writes\<close>

subsection \<open>Relational store\<close>

lemma insert_tests_written:
  assumes "insert_tests db siteId scanId entries = Inr db1"
  shows "pg_tests_written db1 siteId scanId entries"
proof (cases "entries = []")
  case True
  then show ?thesis by (simp add: pg_tests_written_def)
next
  case False
  with assms have tests1: "pg_tests db1 = pg_tests db @
       map (\<lambda>(k, e). testValues_row siteId scanId (pg_tests_id_seq db + 1 + int k) e)
         (enumerate 0 entries)"
    by (auto simp: insert_tests_def split: if_splits)
  have "\<exists>t \<in> set (PostgreSQLAdapter_selectTestResults db1 scanId).
          t\<lparr>te_id := 0\<rparr> = testValues_row siteId scanId 0 e" if "e \<in> set entries" for e
  proof -
    from that obtain k where k: "k < length entries" "entries ! k = e"
      by (auto simp: in_set_conv_nth)
    then have "(k, e) \<in> set (enumerate 0 entries)"
      by (auto simp: in_set_enumerate_eq)
    then have "testValues_row siteId scanId (pg_tests_id_seq db + 1 + int k) e \<in> set (pg_tests db1)"
      unfolding tests1 by force
    then have "testValues_row siteId scanId (pg_tests_id_seq db + 1 + int k) e
                 \<in> set (PostgreSQLAdapter_selectTestResults db1 scanId)"
      by (simp add: PostgreSQLAdapter_selectTestResults_def testValues_row_def)
    moreover have "(testValues_row siteId scanId (pg_tests_id_seq db + 1 + int k) e)\<lparr>te_id := 0\<rparr>
                     = testValues_row siteId scanId 0 e"
      by (simp add: testValues_row_def)
    ultimately show ?thesis by blast
  qed
  then show ?thesis
    by (simp add: pg_tests_written_def list_all_iff list_ex_iff)
qed

lemma pg_tests_written_update_scan_terminal:
  "update_scan_terminal declared db now scanId s = Inr (db', ret) \<Longrightarrow>
     pg_tests_written db' siteId scanId entries = pg_tests_written db siteId scanId entries"
  by (auto simp: update_scan_terminal_Inr pg_tests_written_def PostgreSQLAdapter_selectTestResults_def)

lemma PostgreSQLAdapter_insertTestResults_trace_order:
  assumes running: "map_option sc_state (PostgreSQLAdapter_selectScan db scanId) = Some ScanState_RUNNING"
  shows "list_all (\<lambda>s. pg_scans s = pg_scans db)
           (butlast (PostgreSQLAdapter_insertTestResults_trace declared db now siteId scanId r))"
    and "list_all (\<lambda>s. map_option sc_state (PostgreSQLAdapter_selectScan s scanId) = Some ScanState_RUNNING
                      \<or> pg_tests_written s siteId scanId (tests r))
           (PostgreSQLAdapter_insertTestResults_trace declared db now siteId scanId r)"
    and "PostgreSQLAdapter_insertTestResults declared db now siteId scanId r = Inr (db', ret)
           \<Longrightarrow> last (PostgreSQLAdapter_insertTestResults_trace declared db now siteId scanId r) = db'
               \<and> pg_tests_written db' siteId scanId (tests r)"
proof -
  show "list_all (\<lambda>s. pg_scans s = pg_scans db)
           (butlast (PostgreSQLAdapter_insertTestResults_trace declared db now siteId scanId r))"
    by (auto simp: PostgreSQLAdapter_insertTestResults_trace_def butlast_append
        dest: insert_tests_scans split: sum.splits)
  show "list_all (\<lambda>s. map_option sc_state (PostgreSQLAdapter_selectScan s scanId) = Some ScanState_RUNNING
                      \<or> pg_tests_written s siteId scanId (tests r))
           (PostgreSQLAdapter_insertTestResults_trace declared db now siteId scanId r)"
  proof (cases "insert_tests db siteId scanId (tests r)")
    case (Inl e)
    then show ?thesis
      using running by (simp add: PostgreSQLAdapter_insertTestResults_trace_def)
  next
    case (Inr db1)
    have "pg_scans db1 = pg_scans db"
      using Inr by (rule insert_tests_scans)
    then have before: "map_option sc_state (PostgreSQLAdapter_selectScan db1 scanId)
                         = Some ScanState_RUNNING"
      using running by (simp add: PostgreSQLAdapter_selectScan_def)
    show ?thesis
    proof (cases "update_scan_terminal declared db1 now scanId (scan r)")
      case (Inl e)
      then show ?thesis
        using running before Inr by (simp add: PostgreSQLAdapter_insertTestResults_trace_def)
    next
      case upd: (Inr res)
      obtain db2 ret2 where res: "res = (db2, ret2)"
        by (cases res)
      have "pg_tests_written db2 siteId scanId (tests r)"
        using insert_tests_written [OF Inr]
          pg_tests_written_update_scan_terminal [OF upd [unfolded res]]
        by simp
      then show ?thesis
        using running before Inr upd res
        by (simp add: PostgreSQLAdapter_insertTestResults_trace_def)
    qed
  qed
  show "last (PostgreSQLAdapter_insertTestResults_trace declared db now siteId scanId r) = db'
               \<and> pg_tests_written db' siteId scanId (tests r)"
    if "PostgreSQLAdapter_insertTestResults declared db now siteId scanId r = Inr (db', ret)"
  proof -
    from that obtain db1 where db1: "insert_tests db siteId scanId (tests r) = Inr db1"
      and upd: "update_scan_terminal declared db1 now scanId (scan r) = Inr (db', ret)"
      by (auto simp: PostgreSQLAdapter_insertTestResults_def split: sum.splits)
    show ?thesis
      using insert_tests_written [OF db1] pg_tests_written_update_scan_terminal [OF upd]
      by (simp add: PostgreSQLAdapter_insertTestResults_trace_def db1 upd)
  qed
qed

subsection \<open>Graph store\<close>

lemma in_match_Scan_HAS_TEST:
  "p \<in> set (match_Scan_HAS_TEST g scanId) \<longleftrightarrow>
     (\<exists>a b c. (a, b) \<in> set (match_Scan g scanId) \<and> (a, c) \<in> set (HAS_TEST g)
        \<and> (c, p) \<in> set (TestResult_nodes g))"
  unfolding match_Scan_HAS_TEST_def
  by (auto simp: image_iff) (force | blast)+

lemma graph_extends_refl: "graph_extends g g"
  by (simp add: graph_extends_def)

lemma graph_extends_trans: "graph_extends g g' \<Longrightarrow> graph_extends g' g'' \<Longrightarrow> graph_extends g g''"
  by (auto simp: graph_extends_def)

lemma graph_extends_create_TestResult: "graph_extends g (create_TestResult randomUuid scanId e g n)"
  by (auto simp: graph_extends_def create_TestResult_def)

lemma graph_extends_create_TestResults:
  "graph_extends g (foldl (create_TestResult randomUuid scanId e) g ns)"
proof (induction ns arbitrary: g)
  case Nil
  show ?case by (simp add: graph_extends_refl)
next
  case (Cons n ns)
  show ?case
    using graph_extends_create_TestResult [of g randomUuid scanId e n]
      Cons.IH [of "create_TestResult randomUuid scanId e g n"]
    by (auto intro: graph_extends_trans)
qed

lemma graph_extends_run_testQuery: "graph_extends g (run_testQuery randomUuid scanId g e)"
  by (simp add: run_testQuery_def graph_extends_create_TestResults)

lemma graph_extends_run_testQueries: "graph_extends g (run_testQueries randomUuid scanId g es)"
  unfolding run_testQueries_def
proof (induction es arbitrary: g)
  case Nil
  show ?case by (simp add: graph_extends_refl)
next
  case (Cons e es)
  show ?case
    using graph_extends_run_testQuery [of g randomUuid scanId e]
      Cons.IH [of "run_testQuery randomUuid scanId g e"]
    by (auto intro: graph_extends_trans)
qed

lemma match_Scan_HAS_TEST_mono:
  assumes "graph_extends g g'"
  shows "set (match_Scan_HAS_TEST g scanId) \<subseteq> set (match_Scan_HAS_TEST g' scanId)"
proof
  fix p
  note ext = assms
  assume "p \<in> set (match_Scan_HAS_TEST g scanId)"
  then obtain a b c where "(a, b) \<in> set (match_Scan g scanId)" "(a, c) \<in> set (HAS_TEST g)"
    "(c, p) \<in> set (TestResult_nodes g)"
    unfolding in_match_Scan_HAS_TEST by blast
  moreover have "match_Scan g' scanId = match_Scan g scanId"
    using ext by (simp add: graph_extends_def match_Scan_def)
  ultimately show "p \<in> set (match_Scan_HAS_TEST g' scanId)"
    unfolding in_match_Scan_HAS_TEST using ext by (auto simp: graph_extends_def)
qed

lemma run_testQuery_written:
  assumes "match_Scan g scanId = m # ms"
  shows "\<exists>t \<in> set (match_Scan_HAS_TEST (run_testQuery randomUuid scanId g e) scanId).
           t\<lparr>nt_id := []\<rparr> = new_TestResult [] scanId e"
proof -
  let ?g1 = "create_TestResult randomUuid scanId e g (fst m)"
  let ?t = "new_TestResult (randomUuid (next_node g)) scanId e"
  have "(fst m, snd m) \<in> set (match_Scan ?g1 scanId)"
    using assms by (simp add: match_Scan_def create_TestResult_def)
  moreover have "(fst m, next_node g) \<in> set (HAS_TEST ?g1)"
    by (simp add: create_TestResult_def)
  moreover have "(next_node g, ?t) \<in> set (TestResult_nodes ?g1)"
    by (simp add: create_TestResult_def)
  ultimately have "?t \<in> set (match_Scan_HAS_TEST ?g1 scanId)"
    unfolding in_match_Scan_HAS_TEST by blast
  moreover have "graph_extends ?g1 (run_testQuery randomUuid scanId g e)"
    using graph_extends_create_TestResults [of ?g1 randomUuid scanId e "map fst ms"]
    by (simp add: run_testQuery_def assms)
  ultimately have "?t \<in> set (match_Scan_HAS_TEST (run_testQuery randomUuid scanId g e) scanId)"
    using match_Scan_HAS_TEST_mono by blast
  moreover have "?t\<lparr>nt_id := []\<rparr> = new_TestResult [] scanId e"
    by (simp add: new_TestResult_def)
  ultimately show ?thesis by blast
qed

lemma run_testQueries_written:
  assumes "match_Scan g scanId = m # ms" and "e \<in> set es"
  shows "\<exists>t \<in> set (match_Scan_HAS_TEST (run_testQueries randomUuid scanId g es) scanId).
           t\<lparr>nt_id := []\<rparr> = new_TestResult [] scanId e"
  using assms
proof (induction es arbitrary: g)
  case Nil
  then show ?case by simp
next
  case (Cons x xs)
  let ?g1 = "run_testQuery randomUuid scanId g x"
  have step: "run_testQueries randomUuid scanId g (x # xs) = run_testQueries randomUuid scanId ?g1 xs"
    by (simp add: run_testQueries_def)
  have match1: "match_Scan ?g1 scanId = m # ms"
    using Cons.prems(1) by (simp add: match_Scan_def)
  show ?case
  proof (cases "e = x")
    case True
    obtain t where "t \<in> set (match_Scan_HAS_TEST ?g1 scanId)"
      and "t\<lparr>nt_id := []\<rparr> = new_TestResult [] scanId e"
      using run_testQuery_written [OF Cons.prems(1), of randomUuid x] True by blast
    moreover have "graph_extends ?g1 (run_testQueries randomUuid scanId ?g1 xs)"
      by (rule graph_extends_run_testQueries)
    ultimately show ?thesis
      unfolding step using match_Scan_HAS_TEST_mono by blast
  next
    case False
    then have "e \<in> set xs"
      using Cons.prems(2) by simp
    then show ?thesis
      unfolding step using Cons.IH [OF match1] by blast
  qed
qed

lemma match_Scan_HAS_TEST_set_Scan:
  assumes "\<And>p. n_id (f p) = n_id p"
  shows "match_Scan_HAS_TEST (set_Scan g scanId f) scanId = match_Scan_HAS_TEST g scanId"
proof -
  have "TestResult_nodes (set_Scan g scanId f) = TestResult_nodes g"
    and "HAS_TEST (set_Scan g scanId f) = HAS_TEST g"
    by (simp_all add: set_Scan_def)
  then show ?thesis
    by (simp add: match_Scan_HAS_TEST_def match_Scan_set_Scan_same [OF assms] o_def)
qed

lemma neo_tests_written_final:
  assumes "match_Scan g scanId = m # ms"
  shows "neo_tests_written
           (set_Scan (run_testQueries randomUuid scanId g es) scanId (terminal_props now s))
           scanId es"
  using run_testQueries_written [OF assms, of _ es randomUuid]
  by (simp add: neo_tests_written_def Neo4jAdapter_selectTestResults_def
      match_Scan_HAS_TEST_set_Scan list_all_iff list_ex_iff)

lemma Neo4jAdapter_insertTestResults_trace_order:
  assumes running: "map_option r_state (Neo4jAdapter_selectScan g scanId) = Some ScanState_RUNNING"
  shows "list_all (\<lambda>s. Scan_nodes s = Scan_nodes g)
           (butlast (Neo4jAdapter_insertTestResults_trace randomUuid g now siteId scanId r))"
    and "list_all (\<lambda>s. map_option r_state (Neo4jAdapter_selectScan s scanId) = Some ScanState_RUNNING
                      \<or> neo_tests_written s scanId (tests r))
           (Neo4jAdapter_insertTestResults_trace randomUuid g now siteId scanId r)"
    and "\<exists>g' ret. Neo4jAdapter_insertTestResults randomUuid g now siteId scanId r = Inr (g', ret)
           \<and> last (Neo4jAdapter_insertTestResults_trace randomUuid g now siteId scanId r) = g'
           \<and> neo_tests_written g' scanId (tests r)"
proof -
  from running obtain m ms where match: "match_Scan g scanId = m # ms"
    by (auto simp: Neo4jAdapter_selectScan_def split: list.splits)
  have before: "map_option r_state (Neo4jAdapter_selectScan s scanId) = Some ScanState_RUNNING"
    if "Scan_nodes s = Scan_nodes g" for s
    using running that by (simp add: Neo4jAdapter_selectScan_def match_Scan_def)
  show "list_all (\<lambda>s. Scan_nodes s = Scan_nodes g)
           (butlast (Neo4jAdapter_insertTestResults_trace randomUuid g now siteId scanId r))"
    by (simp add: Neo4jAdapter_insertTestResults_trace_def butlast_append list_all_iff)
  show "list_all (\<lambda>s. map_option r_state (Neo4jAdapter_selectScan s scanId) = Some ScanState_RUNNING
                      \<or> neo_tests_written s scanId (tests r))
           (Neo4jAdapter_insertTestResults_trace randomUuid g now siteId scanId r)"
  proof -
    let ?pre = "map (\<lambda>k. run_testQueries randomUuid scanId g (take k (tests r)))
                  [0 ..< Suc (length (tests r))]"
    let ?final = "set_Scan (run_testQueries randomUuid scanId g (tests r)) scanId
                    (terminal_props now (scan r))"
    have "\<forall>s \<in> set ?pre. Scan_nodes s = Scan_nodes g"
      by auto
    then have "\<forall>s \<in> set ?pre.
                 map_option r_state (Neo4jAdapter_selectScan s scanId) = Some ScanState_RUNNING"
      using before by blast
    moreover have "neo_tests_written ?final scanId (tests r)"
      by (rule neo_tests_written_final [OF match])
    ultimately have "\<forall>s \<in> set (?pre @ [?final]).
                 map_option r_state (Neo4jAdapter_selectScan s scanId) = Some ScanState_RUNNING
                 \<or> neo_tests_written s scanId (tests r)"
      by (metis in_set_conv_decomp_last append1_eq_conv butlast_snoc in_set_butlastD
          rotate1.simps(2) set_ConsD set_rotate1)
    then show ?thesis
      unfolding Neo4jAdapter_insertTestResults_trace_def list_all_iff .
  qed
  show "\<exists>g' ret. Neo4jAdapter_insertTestResults randomUuid g now siteId scanId r = Inr (g', ret)
           \<and> last (Neo4jAdapter_insertTestResults_trace randomUuid g now siteId scanId r) = g'
           \<and> neo_tests_written g' scanId (tests r)"
    using neo_tests_written_final [OF match, of randomUuid "tests r" now "scan r"] match
    by (simp add: Neo4jAdapter_insertTestResults_def Neo4jAdapter_insertTestResults_trace_def
        Let_def match_Scan_set_Scan_same)
qed

text \<open>
  C6: in every execution of \<open>insertTestResults\<close> on a scan that is RUNNING, the TestResult
  records are written before the scan is touched. Of the stores the execution passes
  through (one per completed statement or \<open>session.run\<close>), every one but the last holds the
  scans exactly as they were before the call, so a crash there leaves the scan RUNNING;
  and in every one of them the scan is either still RUNNING or all the TestResults of the
  result are written. The last of these stores is the one the call returns with, on the
  relational backend whenever the call succeeds.
\<close>

theorem TestResults_written_before_terminal_state:
  assumes "map_option sc_state (PostgreSQLAdapter_selectScan db scanId) = Some ScanState_RUNNING"
      and "map_option r_state (Neo4jAdapter_selectScan g scanId') = Some ScanState_RUNNING"
  shows
    "list_all (\<lambda>s. pg_scans s = pg_scans db)
       (butlast (PostgreSQLAdapter_insertTestResults_trace declared db now siteId scanId r))
     \<and> list_all (\<lambda>s. map_option sc_state (PostgreSQLAdapter_selectScan s scanId) = Some ScanState_RUNNING
                      \<or> pg_tests_written s siteId scanId (tests r))
         (PostgreSQLAdapter_insertTestResults_trace declared db now siteId scanId r)
     \<and> (\<forall>db' ret. PostgreSQLAdapter_insertTestResults declared db now siteId scanId r = Inr (db', ret)
           \<longrightarrow> last (PostgreSQLAdapter_insertTestResults_trace declared db now siteId scanId r) = db'
               \<and> pg_tests_written db' siteId scanId (tests r))
     \<and> list_all (\<lambda>s. Scan_nodes s = Scan_nodes g)
         (butlast (Neo4jAdapter_insertTestResults_trace randomUuid g now siteId' scanId' r))
     \<and> list_all (\<lambda>s. map_option r_state (Neo4jAdapter_selectScan s scanId') = Some ScanState_RUNNING
                      \<or> neo_tests_written s scanId' (tests r))
         (Neo4jAdapter_insertTestResults_trace randomUuid g now siteId' scanId' r)
     \<and> (\<exists>g' ret. Neo4jAdapter_insertTestResults randomUuid g now siteId' scanId' r = Inr (g', ret)
           \<and> last (Neo4jAdapter_insertTestResults_trace randomUuid g now siteId' scanId' r) = g'
           \<and> neo_tests_written g' scanId' (tests r))"
  using PostgreSQLAdapter_insertTestResults_trace_order [OF assms(1),
      where now = now and siteId = siteId and r = r and declared = declared]
    Neo4jAdapter_insertTestResults_trace_order [OF assms(2),
      where randomUuid = randomUuid and now = now and siteId = siteId' and r = r]
  by blast

theorem TestResults_written_before_terminal_state_witness:
  "map_option sc_state (PostgreSQLAdapter_selectScan (pg_store [running_row 1 1000]) 1)
     = Some ScanState_RUNNING
   \<and> map_option r_state (Neo4jAdapter_selectScan (graph_store [running_node ''a'' 1000]) ''a'')
     = Some ScanState_RUNNING
   \<and> length (PostgreSQLAdapter_insertTestResults_trace example_declaration (pg_store [running_row 1 1000]) 2000 1 1
               \<lparr>scan = summary (Value 105) (Some ''A+'') None, tests = example_tests\<rparr>) = 3
   \<and> list_all (\<lambda>s. pg_scans s = pg_scans (pg_store [running_row 1 1000]))
        (butlast (PostgreSQLAdapter_insertTestResults_trace example_declaration (pg_store [running_row 1 1000]) 2000 1 1
                    \<lparr>scan = summary (Value 105) (Some ''A+'') None, tests = example_tests\<rparr>))
   \<and> (\<exists>db' ret.
         PostgreSQLAdapter_insertTestResults example_declaration (pg_store [running_row 1 1000]) 2000 1 1
            \<lparr>scan = summary (Value 105) (Some ''A+'') None, tests = example_tests\<rparr> = Inr (db', ret)
         \<and> last (PostgreSQLAdapter_insertTestResults_trace example_declaration (pg_store [running_row 1 1000]) 2000 1 1
                   \<lparr>scan = summary (Value 105) (Some ''A+'') None, tests = example_tests\<rparr>) = db'
         \<and> pg_tests_written db' 1 1 example_tests)
   \<and> length (Neo4jAdapter_insertTestResults_trace example_uuid (graph_store [running_node ''a'' 1000])
               2000 ''example_com_1000'' ''a''
               \<lparr>scan = summary (Value 105) (Some ''A+'') None, tests = example_tests\<rparr>) = 4
   \<and> list_all (\<lambda>s. Scan_nodes s = Scan_nodes (graph_store [running_node ''a'' 1000]))
        (butlast (Neo4jAdapter_insertTestResults_trace example_uuid
                    (graph_store [running_node ''a'' 1000]) 2000 ''example_com_1000'' ''a''
                    \<lparr>scan = summary (Value 105) (Some ''A+'') None, tests = example_tests\<rparr>))
   \<and> (\<exists>g' ret.
         Neo4jAdapter_insertTestResults example_uuid (graph_store [running_node ''a'' 1000]) 2000
            ''example_com_1000'' ''a''
            \<lparr>scan = summary (Value 105) (Some ''A+'') None, tests = example_tests\<rparr> = Inr (g', ret)
         \<and> neo_tests_written g' ''a'' example_tests)"
proof -
  let ?db = "pg_store [running_row 1 1000]"
  let ?g = "graph_store [running_node ''a'' 1000]"
  let ?r = "\<lparr>scan = summary (Value 105) (Some ''A+'') None, tests = example_tests\<rparr>"
  have h1: "map_option sc_state (PostgreSQLAdapter_selectScan ?db 1) = Some ScanState_RUNNING"
    by code_simp
  have h2: "map_option r_state (Neo4jAdapter_selectScan ?g ''a'') = Some ScanState_RUNNING"
    by code_simp
  have l1: "length (PostgreSQLAdapter_insertTestResults_trace example_declaration ?db 2000 1 1 ?r) = 3"
    by code_simp
  have l2: "length (Neo4jAdapter_insertTestResults_trace example_uuid ?g 2000
                      ''example_com_1000'' ''a'' ?r) = 4"
    by code_simp
  have "\<not> isl (PostgreSQLAdapter_insertTestResults example_declaration ?db 2000 1 1 ?r)"
    by code_simp
  then have s1: "\<exists>db' ret. PostgreSQLAdapter_insertTestResults example_declaration ?db 2000 1 1 ?r = Inr (db', ret)"
    by (rule not_isl_Inr_pair)
  have t: "tests ?r = example_tests"
    by simp
  note order = TestResults_written_before_terminal_state [OF h1 h2, where now = 2000
      and siteId = 1 and r = ?r and randomUuid = example_uuid and declared = example_declaration
      and siteId' = "''example_com_1000''", unfolded t]
  show ?thesis
    using h1 h2 l1 l2 s1 order by blast
qed

section \<open>Claims about a result without tests\<close>




section \<open>Claims about the host history\<close>

subsection \<open>The compression\<close>

lemma score_changes_subseq: "set (score_changes f previous xs) \<subseteq> set xs"
  by (induction xs arbitrary: previous) auto

lemma sorted_score_changes:
  "sorted (map k xs) \<Longrightarrow> sorted (map k (score_changes f previous xs))"
proof (induction xs arbitrary: previous)
  case Nil
  then show ?case by simp
next
  case (Cons x xs)
  then show ?case
    using score_changes_subseq [of f "f x" xs] by auto
qed

lemma distinct_adj_score_changes:
  "distinct_adj (previous # map f (score_changes f previous xs))"
  by (induction xs arbitrary: previous) auto

lemma distinct_adj_first_of_each_run: "distinct_adj (map f (first_of_each_run f xs))"
proof (cases xs)
  case Nil
  then show ?thesis by simp
next
  case (Cons x xs')
  then show ?thesis
    using distinct_adj_score_changes [of "f x" f xs'] by simp
qed

lemma with_lag_changes:
  "map fst (filter (\<lambda>(r, prev_score). is_distinct_from (f r) prev_score)
                   (zip rows (previous # map f rows)))
     = score_changes f previous rows"
  by (induction rows arbitrary: previous) (auto simp: is_distinct_from_def)

subsection \<open>Relational store\<close>

lemma PostgreSQLAdapter_selectScanHostHistory_chronological:
  assumes rows: "rows = filter (\<lambda>r. sc_site_id r = siteId \<and> sc_state r = ScanState_FINISHED)
                          (pg_scans db)"
      and by_end: "sorted (map (\<lambda>r. nulls_last (sc_end_time r)) rows)"
      and by_start: "sorted (map sc_start_time rows)"
      and scored: "list_all (\<lambda>r. sc_score r \<noteq> None) rows"
  shows "PostgreSQLAdapter_selectScanHostHistory db siteId
           = map pg_history_entry (first_of_each_run sc_score rows)"
proof -
  have window: "sort_key (\<lambda>r. nulls_last (sc_end_time r)) rows = rows"
    using by_end by (rule sort_key_id_if_sorted)
  have kept: "map fst (filter (\<lambda>(r, prev_score). is_distinct_from (sc_score r) prev_score)
                         (with_lag sc_score rows))
                = first_of_each_run sc_score rows"
  proof (cases rows)
    case Nil
    then show ?thesis by (simp add: with_lag_def)
  next
    case (Cons x xs)
    then have "sc_score x \<noteq> None"
      using scored by simp
    then show ?thesis
      unfolding with_lag_def with_lag_changes using Cons by simp
  qed
  have "sorted (map sc_start_time (first_of_each_run sc_score rows))"
  proof (cases rows)
    case Nil
    then show ?thesis by simp
  next
    case (Cons x xs)
    then show ?thesis
      using by_start sorted_score_changes [of sc_start_time xs sc_score "sc_score x"]
        score_changes_subseq [of sc_score "sc_score x" xs]
      by auto
  qed
  then have "sorted (map h_end_time (map pg_history_entry (first_of_each_run sc_score rows)))"
    by (simp add: o_def pg_history_entry_def)
  then have outer: "sort_key h_end_time (map pg_history_entry (first_of_each_run sc_score rows))
                      = map pg_history_entry (first_of_each_run sc_score rows)"
    by (rule sort_key_id_if_sorted)
  have split: "(\<lambda>(r, prev_score :: int option). pg_history_entry r) = pg_history_entry \<circ> fst"
    by auto
  show ?thesis
    unfolding PostgreSQLAdapter_selectScanHostHistory_def Let_def rows [symmetric] window split
      map_map [symmetric] kept outer ..
qed

subsection \<open>Graph store\<close>

lemma range_from_0: "range 0 (int n - 2) = map int [0 ..< n - 1]"
proof -
  have "nat (int n - 2 - 0 + 1) = n - 1"
    by simp
  then show ?thesis
    by (simp add: range_def)
qed

lemma pairs_by_index:
  "map (\<lambda>idx. (xs ! nat idx, xs ! nat (idx + 1))) (range 0 (int (length xs) - 2)) = zip xs (tl xs)"
proof -
  have "map (\<lambda>idx. (xs ! nat idx, xs ! nat (idx + 1))) (map int [0 ..< length xs - 1])
          = map (\<lambda>k. (xs ! k, xs ! Suc k)) [0 ..< length xs - 1]"
    by (simp add: o_def nat_add_distrib)
  also have "\<dots> = zip xs (tl xs)"
    by (rule nth_equalityI) (auto simp: nth_tl)
  finally show ?thesis
    by (simp only: range_from_0)
qed

lemma pairs_changes:
  "map snd (filter (\<lambda>(previous, current). is_distinct_from (f previous) (f current))
                   (zip (x # xs) xs))
     = score_changes f (f x) xs"
  by (induction xs arbitrary: x) (auto simp: is_distinct_from_def)

lemma Neo4jAdapter_selectScanHostHistory_chronological:
  assumes scans: "scans = filter (\<lambda>scan. n_state scan = ScanState_FINISHED \<and> n_score scan \<noteq> None)
                            (match_Site_HAS_SCAN g siteId)"
      and by_start: "sorted (map n_startTime scans)"
  shows "Neo4jAdapter_selectScanHostHistory g siteId
           = map neo_history_entry (tl (first_of_each_run n_score scans))"
proof -
  have collected: "sort_key n_startTime scans = scans"
    using by_start by (rule sort_key_id_if_sorted)
  have kept: "map snd (filter (\<lambda>(previous, current).
                                 is_distinct_from (n_score previous) (n_score current))
                         (zip scans (tl scans)))
                = tl (first_of_each_run n_score scans)"
  proof (cases scans)
    case Nil
    then show ?thesis by simp
  next
    case (Cons x xs)
    then show ?thesis
      by (simp add: pairs_changes)
  qed
  have "sorted (map n_startTime (tl (first_of_each_run n_score scans)))"
  proof (cases scans)
    case Nil
    then show ?thesis by simp
  next
    case (Cons x xs)
    then show ?thesis
      using by_start sorted_score_changes [of n_startTime xs n_score "n_score x"] by simp
  qed
  then have "sorted (map h_end_time (map neo_history_entry (tl (first_of_each_run n_score scans))))"
    by (simp add: o_def neo_history_entry_def)
  then have outer: "sort_key h_end_time (map neo_history_entry (tl (first_of_each_run n_score scans)))
                      = map neo_history_entry (tl (first_of_each_run n_score scans))"
    by (rule sort_key_id_if_sorted)
  have split: "(\<lambda>(previous :: Scan_props, current). neo_history_entry current)
                 = neo_history_entry \<circ> snd"
    by auto
  show ?thesis
    unfolding Neo4jAdapter_selectScanHostHistory_def Let_def scans [symmetric] collected
      pairs_by_index split map_map [symmetric] kept outer ..
qed

text \<open>
  C1: three FINISHED scans of one site with scores 100, 100, 90 in chronological order.
  The relational adapter returns the two entries 100 and 90. The graph adapter pairs each
  scan with its successor and returns the successor where the scores differ, so the
  earliest scan is never returned: it answers with the single entry 90, and for a site with
  one FINISHED scan with no entry at all.
\<close>

theorem Neo4jAdapter_selectScanHostHistory_omits_earliest_scan:
  "map h_score
     (PostgreSQLAdapter_selectScanHostHistory
        (pg_store [finished_row 1 1000 100, finished_row 2 2000 100, finished_row 3 3000 90]) 1)
     = [Some 100, Some 90]
   \<and> map h_id
       (PostgreSQLAdapter_selectScanHostHistory
          (pg_store [finished_row 1 1000 100, finished_row 2 2000 100, finished_row 3 3000 90]) 1)
     = [1, 3]
   \<and> map h_score
       (Neo4jAdapter_selectScanHostHistory
          (graph_store [finished_node ''a'' 1000 100, finished_node ''b'' 2000 100,
                        finished_node ''c'' 3000 90]) ''example_com_1000'')
     = [Some 90]
   \<and> map h_id
       (Neo4jAdapter_selectScanHostHistory
          (graph_store [finished_node ''a'' 1000 100, finished_node ''b'' 2000 100,
                        finished_node ''c'' 3000 90]) ''example_com_1000'')
     = [''c'']
   \<and> Neo4jAdapter_selectScanHostHistory (graph_store [finished_node ''a'' 1000 100])
        ''example_com_1000'' = []"
  by code_simp

end
